theory Spec2Isabelle
  imports Complex_Main
begin

section \<open>Values, exceptions and the observable trace\<close>

text \<open>
  The development follows \<^verbatim>\<open>grader_utils/__init__.py\<close>: the class
  \<^verbatim>\<open>ProcessWrapper\<close> with its methods \<^verbatim>\<open>run\<close>, \<^verbatim>\<open>join\<close>,
  \<^verbatim>\<open>send_signal\<close>, \<^verbatim>\<open>is_alive\<close>, the thread body \<^verbatim>\<open>target\<close> and the
  function \<^verbatim>\<open>execute\<close>.

  A Python call has three possible results: it returns a value, it raises, or it blocks
  for ever (\<^verbatim>\<open>Thread.join(timeout=None)\<close> on a thread that never ends).
  \<open>OSError\<close> stands for the class with its subclasses; \<^verbatim>\<open>IOError\<close> is another name
  of the same class.
\<close>

datatype exn =
  OSError | IndexError | AttributeError | KeyError | ValueError | UnicodeDecodeError
  | TypeError | OverflowError

datatype 'a res = Return 'a | Raise exn | Hang

text \<open>The entries of \<^verbatim>\<open>delayed_inputs\<close> and the value of \<^verbatim>\<open>input\<close> are
  dynamically typed Python values. A float is a finite value here; bytes are a
  \<^typ>\<open>string\<close> (one \<^typ>\<open>char\<close> per byte).\<close>

datatype pyval =
  PyInt int | PyFloat rat | PyBytes string | PyStr string | PyBool bool | PyNone

text \<open>\<^verbatim>\<open>PIPE\<close>, \<^verbatim>\<open>DEVNULL\<close> and \<^verbatim>\<open>None\<close> (inherit from the parent).\<close>

datatype stdio = PIPE | DEVNULL | INHERIT

datatype signal = SIGTERM | SIGKILL | SIGNUM nat

datatype level = INFO | WARNING | ERROR | CRITICAL

text \<open>What a run does to the outside: calls of \<^verbatim>\<open>Popen\<close>, sleeps and writes of the
  thread, signals, and records of the logger \<^verbatim>\<open>lg\<close> (level and format string).
  An exception that ends the thread body is reported by the threading module.\<close>

datatype event =
    Popen_call "string list"
  | Sleep rat
  | Stdin_write string
  | Killpg nat signal
  | Send_signal nat signal
  | Log level string
  | Thread_exception exn

section \<open>The operating system as an oracle\<close>

text \<open>
  The code observes the operating system at its calls of \<^verbatim>\<open>Popen\<close>,
  \<^verbatim>\<open>Thread.join\<close>, \<^verbatim>\<open>Thread.is_alive\<close>, \<^verbatim>\<open>os.killpg\<close>,
  \<^verbatim>\<open>stdin.write\<close> and \<^verbatim>\<open>communicate\<close>/\<^verbatim>\<open>wait\<close>. Each of these calls
  that has to ask the environment reads the answer for the instant \<open>now\<close> and advances
  the clock by one. The environment is arbitrary: every theorem below that quantifies
  over the world holds for every behaviour of the child, its descendants and the
  scheduler.
  \<^item> \<open>popen_res k\<close>: the operating system refuses the spawn with an exception, or gives
    the new process identifier;
  \<^item> \<open>finished k\<close>: the waiter thread looked at at instant \<open>k\<close> has ended: by now
    for \<^verbatim>\<open>Thread.is_alive\<close>, within the timeout for \<^verbatim>\<open>Thread.join\<close> with a
    timeout, at all for \<^verbatim>\<open>Thread.join(None)\<close>;
  \<^item> \<open>exit_res k\<close>: exit code and the bytes on stdout and stderr that
    \<^verbatim>\<open>wait\<close>/\<^verbatim>\<open>communicate\<close> deliver;
  \<^item> \<open>write_res k\<close>, \<open>killpg_res k\<close>, \<open>sleep_res k\<close>: the exception that the write,
    the signal or the system call of \<^verbatim>\<open>time.sleep\<close> raises, if any.
\<close>

record world =
  now :: nat
  popen_res :: "nat \<Rightarrow> exn + nat"
  finished :: "nat \<Rightarrow> bool"
  exit_res :: "nat \<Rightarrow> int \<times> string \<times> string"
  write_res :: "nat \<Rightarrow> exn option"
  killpg_res :: "nat \<Rightarrow> exn option"
  sleep_res :: "nat \<Rightarrow> exn option"
  trace :: "event list"

definition tick :: "world \<Rightarrow> world" where
  "tick w = w\<lparr>now := now w + 1\<rparr>"

definition emit :: "event \<Rightarrow> world \<Rightarrow> world" where
  "emit e w = w\<lparr>trace := trace w @ [e]\<rparr>"

text \<open>Sequencing: an exception or a hang of the first call ends the whole call.\<close>

definition then_do :: "'a res \<times> 'st \<Rightarrow> ('a \<Rightarrow> 'st \<Rightarrow> 'b res \<times> 'st) \<Rightarrow> 'b res \<times> 'st" where
  "then_do m f =
     (case m of
        (Return x, st) \<Rightarrow> f x st
      | (Raise e, st) \<Rightarrow> (Raise e, st)
      | (Hang, st) \<Rightarrow> (Hang, st))"

section \<open>The ProcessWrapper object\<close>

record popen =
  pid :: nat
  returncode :: "int option"

datatype thread = Thread (running: bool)

record pw =
  command :: "string list"
  timeout :: "rat option"
  stdout :: stdio
  stderr :: stdio
  stdin :: stdio
  cwd :: "string option"
  inputs :: "pyval option"
  delayed_inputs :: "pyval list"
  disable_communicate :: bool
  check_pg_alive :: bool
  env :: "(string \<times> string) list option"
  process :: "popen option"
  thread :: "thread option"
  killed :: bool
  stdout_res :: "string option"
  stderr_res :: "string option"
  exit_timeout :: bool
  exit_force :: bool
  exit_timeout_pg :: bool
  exit_force_pg :: bool

text \<open>The keyword arguments of the constructor: \<open>None\<close> is an absent key.\<close>

record kwargs =
  kw_timeout :: "rat option"
  kw_stdout :: "stdio option"
  kw_stderr :: "stdio option"
  kw_stdin :: "stdio option"
  kw_cwd :: "string option"
  kw_input :: "pyval option"
  kw_delayed_inputs :: "pyval list option"
  kw_disable_communicate :: "bool option"
  kw_check_pg_alive :: "bool option"
  kw_env :: "(string \<times> string) list option"

definition no_kwargs :: kwargs where
  "no_kwargs = \<lparr>kw_timeout = None, kw_stdout = None, kw_stderr = None, kw_stdin = None,
     kw_cwd = None, kw_input = None, kw_delayed_inputs = None,
     kw_disable_communicate = None, kw_check_pg_alive = None, kw_env = None\<rparr>"

definition kwargs_get :: "'a option \<Rightarrow> 'a \<Rightarrow> 'a" where
  "kwargs_get v d = (case v of None \<Rightarrow> d | Some x \<Rightarrow> x)"

text \<open>\<^verbatim>\<open>__init__\<close>, for a command that is already an argument vector.\<close>

definition ProcessWrapper :: "string list \<Rightarrow> kwargs \<Rightarrow> pw" where
  "ProcessWrapper cmd kw =
     \<lparr>command = cmd,
      timeout = kw_timeout kw,
      stdout = kwargs_get (kw_stdout kw) DEVNULL,
      stderr = kwargs_get (kw_stderr kw) DEVNULL,
      stdin = kwargs_get (kw_stdin kw) DEVNULL,
      cwd = kw_cwd kw,
      inputs = kw_input kw,
      delayed_inputs = kwargs_get (kw_delayed_inputs kw) [],
      disable_communicate = kwargs_get (kw_disable_communicate kw) False,
      check_pg_alive = kwargs_get (kw_check_pg_alive kw) True,
      env = kw_env kw,
      process = None,
      thread = None,
      killed = False,
      stdout_res = None,
      stderr_res = None,
      exit_timeout = False,
      exit_force = False,
      exit_timeout_pg = False,
      exit_force_pg = False\<rparr>"

section \<open>Primitives of the Python runtime\<close>

text \<open>\<^verbatim>\<open>Popen(self.command, ...)\<close>: an empty argument vector raises
  \<^verbatim>\<open>IndexError\<close> inside \<^verbatim>\<open>Popen\<close>; otherwise the operating system decides.
  Every call is recorded, whatever its result.\<close>

definition Popen :: "string list \<Rightarrow> world \<Rightarrow> popen res \<times> world" where
  "Popen cmd w =
     (let w1 = emit (Popen_call cmd) (tick w) in
      if cmd = [] then (Raise IndexError, w1)
      else (case popen_res w (now w) of
              Inl e \<Rightarrow> (Raise e, w1)
            | Inr p \<Rightarrow> (Return \<lparr>pid = p, returncode = None\<rparr>, w1)))"

text \<open>\<^verbatim>\<open>time.sleep(i)\<close> first converts its argument to a number of nanoseconds in
  a signed 64-bit integer (CPython 3.11): an \<^verbatim>\<open>int\<close> must lie between -9223372036 and
  9223372036 seconds; for a \<^verbatim>\<open>float\<close> the product with \<open>10\<^sup>9\<close>, rounded to a double,
  must be at least \<open>-2\<^sup>6\<^sup>3\<close> and less than \<open>2\<^sup>6\<^sup>3\<close>, which for the exact product is
  the interval below. Outside, the call raises \<^verbatim>\<open>OverflowError\<close>. A negative length
  then raises \<^verbatim>\<open>ValueError\<close>.\<close>

definition sleep_length :: "pyval \<Rightarrow> exn + rat" where
  "sleep_length v =
     (case v of
        PyInt n \<Rightarrow>
          if n < - 9223372036 \<or> 9223372036 < n then Inl OverflowError
          else if n < 0 then Inl ValueError
          else Inr (of_int n)
      | PyFloat x \<Rightarrow>
          if x * 10 ^ 9 < - (2 ^ 63) - 1024 \<or> 2 ^ 63 - 512 \<le> x * 10 ^ 9 then Inl OverflowError
          else if x < 0 then Inl ValueError
          else Inr x
      | _ \<Rightarrow> Inl TypeError)"

text \<open>The sleep itself is a system call, which the operating system may refuse (a
  deadline beyond the range of its clock).\<close>

definition time_sleep :: "pyval \<Rightarrow> world \<Rightarrow> unit res \<times> world" where
  "time_sleep v w =
     (case sleep_length v of
        Inl e \<Rightarrow> (Raise e, w)
      | Inr d \<Rightarrow>
          (case sleep_res w (now w) of
             Some e \<Rightarrow> (Raise e, tick w)
           | None \<Rightarrow> (Return (), emit (Sleep d) (tick w))))"

text \<open>\<^verbatim>\<open>self.process.stdin.write(i)\<close>: \<^verbatim>\<open>process.stdin\<close> is \<^verbatim>\<open>None\<close> unless
  stdin was configured as \<^verbatim>\<open>PIPE\<close>.\<close>

definition stdin_write :: "pw \<Rightarrow> string \<Rightarrow> world \<Rightarrow> unit res \<times> world" where
  "stdin_write s b w =
     (if stdin s \<noteq> PIPE then (Raise AttributeError, w)
      else (case write_res w (now w) of
              Some e \<Rightarrow> (Raise e, tick w)
            | None \<Rightarrow> (Return (), emit (Stdin_write b) (tick w))))"

text \<open>\<^verbatim>\<open>os.killpg(pid, sig)\<close>.\<close>

definition os_killpg :: "nat \<Rightarrow> signal \<Rightarrow> pw \<times> world \<Rightarrow> unit res \<times> (pw \<times> world)" where
  "os_killpg p sig st =
     (case st of (s, w) \<Rightarrow>
      (case killpg_res w (now w) of
         Some e \<Rightarrow> (Raise e, (s, tick w))
       | None \<Rightarrow> (Return (), (s, emit (Killpg p sig) (tick w)))))"

text \<open>A call of the logger \<^verbatim>\<open>lg\<close> whose message has been formatted.\<close>

definition lg :: "level \<Rightarrow> string \<Rightarrow> pw \<times> world \<Rightarrow> unit res \<times> (pw \<times> world)" where
  "lg l msg st = (Return (), (fst st, emit (Log l msg) (snd st)))"

text \<open>\<^verbatim>\<open>self.process.pid\<close>: an attribute of \<^verbatim>\<open>None\<close> before \<^verbatim>\<open>run\<close>.\<close>

definition process_pid :: "pw \<times> world \<Rightarrow> nat res \<times> (pw \<times> world)" where
  "process_pid st =
     (case process (fst st) of
        None \<Rightarrow> (Raise AttributeError, st)
      | Some p \<Rightarrow> (Return (pid p), st))"

section \<open>The thread body \<^verbatim>\<open>target\<close>\<close>

text \<open>The loop over \<^verbatim>\<open>self.delayed_inputs\<close> (lines 102 to 112). \<^verbatim>\<open>type(i) is int\<close>
  is false for a \<^verbatim>\<open>bool\<close>. The result \<open>Return ()\<close> covers both the end of the list
  and the \<^verbatim>\<open>break\<close>.\<close>

fun target_loop :: "pyval list \<Rightarrow> pw \<Rightarrow> world \<Rightarrow> unit res \<times> world" where
  "target_loop [] s w = (Return (), w)"
| "target_loop (PyInt i # rest) s w =
     (case time_sleep (PyInt i) w of
        (Return u, w1) \<Rightarrow> target_loop rest s w1
      | (r, w1) \<Rightarrow> (r, w1))"
| "target_loop (PyFloat i # rest) s w =
     (case time_sleep (PyFloat i) w of
        (Return u, w1) \<Rightarrow> target_loop rest s w1
      | (r, w1) \<Rightarrow> (r, w1))"
| "target_loop (PyBytes i # rest) s w =
     (case stdin_write s i w of
        (Return u, w1) \<Rightarrow> target_loop rest s w1
      | (Raise OSError, w1) \<Rightarrow>
          (Return (), emit (Log INFO ''Input: {} failed to write to stdin due to\<newline>{}'') w1)
      | (r, w1) \<Rightarrow> (r, w1))"
| "target_loop (i # rest) s w = target_loop rest s w"

text \<open>Truth value of a Python value, and whether it is a \<^verbatim>\<open>bytes\<close> object.\<close>

definition py_bool :: "pyval \<Rightarrow> bool" where
  "py_bool v =
     (case v of
        PyInt n \<Rightarrow> n \<noteq> 0 | PyFloat x \<Rightarrow> x \<noteq> 0 | PyBytes b \<Rightarrow> b \<noteq> []
      | PyStr x \<Rightarrow> x \<noteq> [] | PyBool b \<Rightarrow> b | PyNone \<Rightarrow> False)"

definition is_bytes :: "pyval \<Rightarrow> bool" where
  "is_bytes v = (case v of PyBytes b \<Rightarrow> True | _ \<Rightarrow> False)"

text \<open>\<^verbatim>\<open>self.process.communicate(input=self.inputs)\<close>. The process was opened in
  binary mode. When stdin is a pipe and the input is true, \<^verbatim>\<open>communicate\<close> writes it:
  a value that is not bytes-like raises \<^verbatim>\<open>TypeError\<close>, before the child is waited
  for. A false input, or any input when stdin is no pipe, is not written. A pipe that
  the child has closed is passed over.\<close>

definition input_error :: "pw \<Rightarrow> exn option" where
  "input_error s =
     (case inputs s of
        None \<Rightarrow> None
      | Some v \<Rightarrow> if stdin s = PIPE \<and> py_bool v \<and> \<not> is_bytes v then Some TypeError else None)"

definition communicate_input :: "pw \<Rightarrow> world \<Rightarrow> unit res \<times> world" where
  "communicate_input s w =
     (case input_error s of
        Some e \<Rightarrow> (Raise e, w)
      | None \<Rightarrow>
          (case inputs s of
             Some (PyBytes b) \<Rightarrow>
               if stdin s = PIPE \<and> b \<noteq> [] then (Return (), emit (Stdin_write b) w)
               else (Return (), w)
           | _ \<Rightarrow> (Return (), w)))"

text \<open>\<^verbatim>\<open>self.process.wait()\<close> and \<^verbatim>\<open>communicate\<close> both store the exit code in
  \<^verbatim>\<open>process.returncode\<close>; \<^verbatim>\<open>communicate\<close> returns the captured bytes of a stream
  that is a \<^verbatim>\<open>PIPE\<close> and \<^verbatim>\<open>None\<close> for any other. The body is run when the
  environment says that the thread has ended, so neither call blocks here.\<close>

definition target :: "pw \<times> world \<Rightarrow> unit res \<times> (pw \<times> world)" where
  "target st =
     (case st of (s, w) \<Rightarrow>
      (case target_loop (delayed_inputs s) s w of
         (Return u, w1) \<Rightarrow>
           (case process s of
              None \<Rightarrow> (Raise AttributeError, (s, w1))
            | Some p \<Rightarrow>
                if disable_communicate s
                then (case exit_res w1 (now w1) of (rc, out, err) \<Rightarrow>
                      (Return (), (s\<lparr>process := Some (p\<lparr>returncode := Some rc\<rparr>)\<rparr>, tick w1)))
                else
                  (case communicate_input s w1 of
                     (Return u2, w2) \<Rightarrow>
                       (case exit_res w2 (now w2) of (rc, out, err) \<Rightarrow>
                        (Return (),
                         (s\<lparr>process := Some (p\<lparr>returncode := Some rc\<rparr>),
                            stdout_res := (if stdout s = PIPE then Some out else None),
                            stderr_res := (if stderr s = PIPE then Some err else None)\<rparr>,
                          tick w2)))
                   | (r, w2) \<Rightarrow> (r, (s, w2))))
       | (r, w1) \<Rightarrow> (r, (s, w1))))"

section \<open>The waiter thread seen from the caller\<close>

text \<open>
  The thread runs concurrently. The caller sees it only through \<^verbatim>\<open>Thread.join\<close> and
  \<^verbatim>\<open>Thread.is_alive\<close>; at each of these the environment says whether the thread has
  ended by now. When it has, the effects of its body on the object (\<^verbatim>\<open>stdout_res\<close>,
  \<^verbatim>\<open>stderr_res\<close>, \<^verbatim>\<open>process.returncode\<close>) become visible, and the thread is dead
  from then on: a thread that has ended never runs again. An exception that ends the
  body is reported and ends the thread.
\<close>

definition thread_poll :: "pw \<times> world \<Rightarrow> pw \<times> world" where
  "thread_poll st =
     (case st of (s, w) \<Rightarrow>
      if thread s = Some (Thread True) then
        (if finished w (now w) then
           (case target (s, tick w) of
              (Raise e, (s1, w1)) \<Rightarrow> (s1\<lparr>thread := Some (Thread False)\<rparr>, emit (Thread_exception e) w1)
            | (r, (s1, w1)) \<Rightarrow> (s1\<lparr>thread := Some (Thread False)\<rparr>, w1))
         else (s, tick w))
      else (s, w))"

text \<open>\<^verbatim>\<open>self.thread.join(timeout=t)\<close>: with \<^verbatim>\<open>t = None\<close> it returns only when the
  thread has ended.\<close>

definition thread_join :: "rat option \<Rightarrow> pw \<times> world \<Rightarrow> unit res \<times> (pw \<times> world)" where
  "thread_join t st =
     (case thread (fst st) of
        None \<Rightarrow> (Raise AttributeError, st)
      | Some th \<Rightarrow>
          (case thread_poll st of (s1, w1) \<Rightarrow>
           if thread s1 = Some (Thread True) \<and> t = None then (Hang, (s1, w1))
           else (Return (), (s1, w1))))"

text \<open>\<^verbatim>\<open>self.thread.is_alive()\<close>.\<close>

definition thread_is_alive :: "pw \<times> world \<Rightarrow> bool res \<times> (pw \<times> world)" where
  "thread_is_alive st =
     (case thread (fst st) of
        None \<Rightarrow> (Raise AttributeError, st)
      | Some th \<Rightarrow>
          (case thread_poll st of (s1, w1) \<Rightarrow>
           (Return (thread s1 = Some (Thread True)), (s1, w1))))"

section \<open>\<^verbatim>\<open>run\<close>\<close>

text \<open>Lines 119 to 127. \<^verbatim>\<open>except OSError\<close> logs and raises again; any other exception
  of \<^verbatim>\<open>Popen\<close> passes uncaught. The thread is created and started only after
  \<^verbatim>\<open>Popen\<close> has returned.\<close>

definition run :: "pw \<times> world \<Rightarrow> unit res \<times> (pw \<times> world)" where
  "run st =
     (case st of (s, w) \<Rightarrow>
      (case Popen (command s) w of
         (Return p, w1) \<Rightarrow>
           (Return (), (s\<lparr>process := Some p, thread := Some (Thread True)\<rparr>, w1))
       | (Raise OSError, w1) \<Rightarrow>
           (Raise OSError, (s, emit (Log ERROR ''Couldn't Popen command {}'') w1))
       | (Raise e, w1) \<Rightarrow> (Raise e, (s, w1))
       | (Hang, w1) \<Rightarrow> (Hang, (s, w1))))"

section \<open>Text of the process table\<close>

text \<open>\<^verbatim>\<open>bytes.decode('utf8')\<close> with strict error handling: the code points of a
  well-formed UTF-8 byte sequence, and \<^verbatim>\<open>UnicodeDecodeError\<close> (here \<open>None\<close>) for
  overlong forms, surrogates, values above U+10FFFF, stray or missing continuation bytes.\<close>

definition utf8_cont :: "nat \<Rightarrow> bool" where
  "utf8_cont b = (128 \<le> b \<and> b < 192)"

fun decode_utf8 :: "nat list \<Rightarrow> nat list option" where
  "decode_utf8 [] = Some []"
| "decode_utf8 (b0 # bs) =
     (if b0 < 128 then map_option (Cons b0) (decode_utf8 bs)
      else if 194 \<le> b0 \<and> b0 < 224 then
        (case bs of
           b1 # r \<Rightarrow>
             if utf8_cont b1
             then map_option (Cons ((b0 - 192) * 64 + (b1 - 128))) (decode_utf8 r)
             else None
         | _ \<Rightarrow> None)
      else if 224 \<le> b0 \<and> b0 < 240 then
        (case bs of
           b1 # b2 # r \<Rightarrow>
             if utf8_cont b1 \<and> utf8_cont b2
                \<and> (if b0 = 224 then 160 \<le> b1 else True)
                \<and> (if b0 = 237 then b1 < 160 else True)
             then map_option (Cons ((b0 - 224) * 4096 + (b1 - 128) * 64 + (b2 - 128)))
                    (decode_utf8 r)
             else None
         | _ \<Rightarrow> None)
      else if 240 \<le> b0 \<and> b0 < 245 then
        (case bs of
           b1 # b2 # b3 # r \<Rightarrow>
             if utf8_cont b1 \<and> utf8_cont b2 \<and> utf8_cont b3
                \<and> (if b0 = 240 then 144 \<le> b1 else True)
                \<and> (if b0 = 244 then b1 < 144 else True)
             then map_option
                    (Cons ((b0 - 240) * 262144 + (b1 - 128) * 4096 + (b2 - 128) * 64 + (b3 - 128)))
                    (decode_utf8 r)
             else None
         | _ \<Rightarrow> None)
      else None)"

text \<open>The code points for which \<^verbatim>\<open>str.isspace\<close> holds; \<^verbatim>\<open>str.split()\<close> without
  arguments cuts at runs of them and returns no empty word.\<close>

definition py_isspace :: "nat \<Rightarrow> bool" where
  "py_isspace c =
     ((9 \<le> c \<and> c \<le> 13) \<or> (28 \<le> c \<and> c \<le> 32) \<or> c = 133 \<or> c = 160 \<or> c = 5760
      \<or> (8192 \<le> c \<and> c \<le> 8202) \<or> c = 8232 \<or> c = 8233 \<or> c = 8239 \<or> c = 8287
      \<or> c = 12288)"

fun py_split_from :: "nat list \<Rightarrow> nat list \<Rightarrow> nat list list" where
  "py_split_from cur [] = (if cur = [] then [] else [cur])"
| "py_split_from cur (c # cs) =
     (if py_isspace c
      then (if cur = [] then py_split_from [] cs else cur # py_split_from [] cs)
      else py_split_from (cur @ [c]) cs)"

definition py_split :: "nat list \<Rightarrow> nat list list" where
  "py_split txt = py_split_from [] txt"

text \<open>\<^verbatim>\<open>str(n)\<close> for a process identifier: its decimal digits as code points.\<close>

fun py_str :: "nat \<Rightarrow> nat list" where
  "py_str n = (if n < 10 then [48 + n] else py_str (n div 10) @ [48 + n mod 10])"

section \<open>\<^verbatim>\<open>join\<close>, \<^verbatim>\<open>is_alive\<close> and \<^verbatim>\<open>execute\<close>\<close>

text \<open>The dictionary that \<^verbatim>\<open>join\<close> returns.\<close>

record outcome =
  out_returncode :: "int option"
  out_stdout :: "string option"
  out_stderr :: "string option"
  out_timeout :: bool
  out_killed :: bool
  out_timeout_pg :: bool
  out_killed_pg :: bool

text \<open>Lines 154 to 162.\<close>

definition join_result :: "pw \<times> world \<Rightarrow> outcome res \<times> (pw \<times> world)" where
  "join_result st =
     (case process (fst st) of
        None \<Rightarrow> (Raise AttributeError, st)
      | Some p \<Rightarrow>
          (Return \<lparr>out_returncode = returncode p,
                   out_stdout = stdout_res (fst st),
                   out_stderr = stderr_res (fst st),
                   out_timeout = exit_timeout (fst st),
                   out_killed = exit_force (fst st),
                   out_timeout_pg = exit_timeout_pg (fst st),
                   out_killed_pg = exit_force_pg (fst st)\<rparr>, st))"

definition TIME_UNTIL_SIGKILL_SECS :: rat where
  "TIME_UNTIL_SIGKILL_SECS = 1"

text \<open>The keyword arguments \<^verbatim>\<open>check_pg_alive=False, stdout=PIPE\<close> of line 181, and
  the command \<^verbatim>\<open>'ps -Ao pgid'\<close> as \<^verbatim>\<open>shlex.split\<close> cuts it.\<close>

definition ps_kwargs :: kwargs where
  "ps_kwargs = no_kwargs\<lparr>kw_check_pg_alive := Some False, kw_stdout := Some PIPE\<rparr>"

definition ps_command :: "string list" where
  "ps_command = [''ps'', ''-Ao'', ''pgid'']"

text \<open>What the definition of the three mutually recursive functions needs: the
  continuation of \<open>then_do\<close> runs only on a returned value, and neither the thread
  primitives nor \<open>run\<close> change the option \<^verbatim>\<open>check_pg_alive\<close>.\<close>

lemma then_do_cong [fundef_cong]:
  "m = m' \<Longrightarrow> (\<And>x st. m' = (Return x, st) \<Longrightarrow> f x st = f' x st)
   \<Longrightarrow> then_do m f = then_do m' f'"
  by (auto simp: then_do_def split: prod.splits res.splits)

lemma thread_poll_check_pg_alive:
  "check_pg_alive (fst (thread_poll st)) = check_pg_alive (fst st)"
  by (auto simp: thread_poll_def target_def
      split: if_splits prod.splits res.splits option.splits exn.splits)

lemma thread_join_check_pg_alive:
  assumes "thread_join t st = (r, st1)"
  shows "check_pg_alive (fst st1) = check_pg_alive (fst st)"
proof -
  from assms have "st1 = st \<or> st1 = thread_poll st"
    by (auto simp: thread_join_def split: option.splits prod.splits if_splits)
  then show ?thesis
    using thread_poll_check_pg_alive [of st] by auto
qed

lemma run_check_pg_alive:
  "run st = (r, st1) \<Longrightarrow> check_pg_alive (fst st1) = check_pg_alive (fst st)"
  by (auto simp: run_def split: prod.splits res.splits exn.splits)

text \<open>
  \<^verbatim>\<open>join\<close> (lines 135 to 162), \<^verbatim>\<open>is_alive\<close> (lines 181 to 183) and
  \<^verbatim>\<open>execute\<close> (lines 194 to 196) call each other: \<^verbatim>\<open>join\<close> probes the process group
  with \<^verbatim>\<open>is_alive\<close>, which runs \<^verbatim>\<open>ps\<close> through \<^verbatim>\<open>execute\<close>, which ends in
  \<^verbatim>\<open>join\<close>. In \<^verbatim>\<open>join\<close>, \<open>pg\<close> is the choice of line 136 between
  \<^verbatim>\<open>self.is_alive\<close> and \<^verbatim>\<open>self.thread.is_alive\<close>. The format string of line 152
  names a field \<^verbatim>\<open>self\<close> that \<^verbatim>\<open>format\<close> is not given: the call raises
  \<^verbatim>\<open>KeyError\<close> before \<^verbatim>\<open>lg.error\<close> is entered.
\<close>

function join :: "pw \<times> world \<Rightarrow> outcome res \<times> (pw \<times> world)"
  and is_alive :: "pw \<times> world \<Rightarrow> bool res \<times> (pw \<times> world)"
  and execute :: "string list \<Rightarrow> kwargs \<Rightarrow> world \<Rightarrow> outcome res \<times> world"
where
  "join st0 =
     then_do (thread_join (timeout (fst st0)) st0) (\<lambda>u (s1, w1).
     let pg = check_pg_alive s1 in
     then_do (thread_is_alive (s1, w1)) (\<lambda>a (s2, w2).
     then_do (if pg then is_alive (s2\<lparr>exit_timeout := a\<rparr>, w2)
              else thread_is_alive (s2\<lparr>exit_timeout := a\<rparr>, w2)) (\<lambda>al (s3, w3).
     if al then
       then_do (process_pid (s3\<lparr>exit_timeout_pg := check_pg_alive s3\<rparr>, w3)) (\<lambda>p st4.
       then_do (lg INFO ''{}: is still alive. Terminating now...'' st4) (\<lambda>u st5.
       then_do (os_killpg p SIGTERM st5) (\<lambda>u st6.
       then_do (thread_join (Some TIME_UNTIL_SIGKILL_SECS) st6) (\<lambda>u st7.
       then_do (thread_is_alive st7) (\<lambda>a2 (s8, w8).
       then_do (if pg then is_alive (s8\<lparr>exit_force := a2\<rparr>, w8)
                else thread_is_alive (s8\<lparr>exit_force := a2\<rparr>, w8)) (\<lambda>al2 (s9, w9).
       if al2 then
         then_do (process_pid (s9\<lparr>exit_force_pg := check_pg_alive s9\<rparr>, w9)) (\<lambda>p st10.
         then_do (lg WARNING
                    ''{}: is still alive after SIGTERM. Pressing the big red button...''
                    st10) (\<lambda>u st11.
         then_do (os_killpg p SIGKILL st11) (\<lambda>u st12.
         then_do (thread_is_alive st12) (\<lambda>a3 st13.
         if a3 then (Raise KeyError, st13)
         else join_result st13))))
       else join_result (s9, w9)))))))
     else join_result (s3, w3))))"
| "is_alive st =
     then_do (case execute ps_command ps_kwargs (snd st) of
                (r, w1) \<Rightarrow> (r, (fst st, w1))) (\<lambda>result st1.
     case out_stdout result of
       None \<Rightarrow> (Raise AttributeError, st1)
     | Some b \<Rightarrow>
         (case decode_utf8 (map of_char b) of
            None \<Rightarrow> (Raise UnicodeDecodeError, st1)
          | Some txt \<Rightarrow>
              (let pgids = py_split txt in
               then_do (process_pid st1) (\<lambda>p st2.
               (Return (py_str p \<in> set pgids), st2)))))"
| "execute cmd kw w =
     (case then_do (run (ProcessWrapper cmd kw, w)) (\<lambda>u st. join st) of
        (r, (s, w1)) \<Rightarrow> (r, w1))"
  by pat_completeness auto

text \<open>The recursion ends because \<^verbatim>\<open>is_alive\<close> passes \<^verbatim>\<open>check_pg_alive=False\<close>:
  the \<^verbatim>\<open>join\<close> of the helper does not probe again.\<close>

termination
proof (relation "measure (\<lambda>x. case x of
          Inl st \<Rightarrow> (if check_pg_alive (fst st) then 4 else 1)
        | Inr (Inl st) \<Rightarrow> 3
        | Inr (Inr (cmd, kw, w)) \<Rightarrow>
            (if kwargs_get (kw_check_pg_alive kw) True then 5 else 2))", goal_cases)
  case 1
  show ?case by simp
next
  case (2 st0 u st1 s1 w1 pg)
  then show ?case using thread_join_check_pg_alive [of "timeout (fst st0)" st0 "Return u" st1]
    by auto
next
  case (3 st0 u st1 s1 w1 pg a st2 s2 w2 al st3 s3 w3 p st4 u2 st5 u3 st6 u4 st7 a2 st8 s8 w8)
  then show ?case using thread_join_check_pg_alive [of "timeout (fst st0)" st0 "Return u" st1]
    by auto
next
  case (4 st)
  show ?case by (simp add: ps_kwargs_def no_kwargs_def kwargs_get_def)
next
  case (5 cmd kw w u st)
  then show ?case using run_check_pg_alive [of "(ProcessWrapper cmd kw, w)" "Return u" st]
    by (simp add: ProcessWrapper_def)
qed

declare join.simps [simp del] is_alive.simps [simp del] execute.simps [simp del]

text \<open>Lines 135 to 162 as they run when line 136 binds \<^verbatim>\<open>alive\<close> to
  \<^verbatim>\<open>self.thread.is_alive\<close>: both liveness checks (lines 138 and 144) are looks at
  the waiter, and \<^verbatim>\<open>is_alive\<close> is not mentioned.\<close>

definition join_on_waiter :: "pw \<times> world \<Rightarrow> outcome res \<times> (pw \<times> world)" where
  "join_on_waiter st0 =
     then_do (thread_join (timeout (fst st0)) st0) (\<lambda>u st1.
     then_do (thread_is_alive st1) (\<lambda>a (s2, w2).
     then_do (thread_is_alive (s2\<lparr>exit_timeout := a\<rparr>, w2)) (\<lambda>al (s3, w3).
     if al then
       then_do (process_pid (s3\<lparr>exit_timeout_pg := check_pg_alive s3\<rparr>, w3)) (\<lambda>p st4.
       then_do (lg INFO ''{}: is still alive. Terminating now...'' st4) (\<lambda>u st5.
       then_do (os_killpg p SIGTERM st5) (\<lambda>u st6.
       then_do (thread_join (Some TIME_UNTIL_SIGKILL_SECS) st6) (\<lambda>u st7.
       then_do (thread_is_alive st7) (\<lambda>a2 (s8, w8).
       then_do (thread_is_alive (s8\<lparr>exit_force := a2\<rparr>, w8)) (\<lambda>al2 (s9, w9).
       if al2 then
         then_do (process_pid (s9\<lparr>exit_force_pg := check_pg_alive s9\<rparr>, w9)) (\<lambda>p st10.
         then_do (lg WARNING
                    ''{}: is still alive after SIGTERM. Pressing the big red button...''
                    st10) (\<lambda>u st11.
         then_do (os_killpg p SIGKILL st11) (\<lambda>u st12.
         then_do (thread_is_alive st12) (\<lambda>a3 st13.
         if a3 then (Raise KeyError, st13)
         else join_result st13))))
       else join_result (s9, w9)))))))
     else join_result (s3, w3))))"

text \<open>The object and the world after \<open>n\<close> further calls of \<^verbatim>\<open>join\<close>, whatever
  they returned or raised.\<close>

fun later :: "nat \<Rightarrow> pw \<times> world \<Rightarrow> pw \<times> world" where
  "later 0 st = st"
| "later (Suc n) st = snd (join (later n st))"

text \<open>\<^verbatim>\<open>send_signal\<close> (lines 169 to 174). \<^verbatim>\<open>Popen.send_signal\<close> delivers the signal
  only while \<^verbatim>\<open>returncode\<close> is \<^verbatim>\<open>None\<close>. In the other branch the arguments of
  \<^verbatim>\<open>format\<close> are evaluated first: \<^verbatim>\<open>self.command[0]\<close>, then \<^verbatim>\<open>self.process.pd\<close>,
  an attribute that a \<^verbatim>\<open>Popen\<close> object does not have.\<close>

definition send_signal :: "signal \<Rightarrow> pw \<times> world \<Rightarrow> unit res \<times> (pw \<times> world)" where
  "send_signal sig st0 =
     then_do (thread_is_alive st0) (\<lambda>a st.
     if a then
       (case process (fst st) of
          None \<Rightarrow> (Raise AttributeError, st)
        | Some p \<Rightarrow>
            if returncode p = None
            then (Return (), (fst st, emit (Send_signal (pid p) sig) (snd st)))
            else (Return (), st))
     else
       (case command (fst st) of
          [] \<Rightarrow> (Raise IndexError, st)
        | c # cs \<Rightarrow> (Raise AttributeError, st)))"

section \<open>Reading the trace; concrete worlds\<close>

text \<open>The commands of the \<^verbatim>\<open>Popen\<close> calls in a trace, in order.\<close>

fun popen_calls :: "event list \<Rightarrow> string list list" where
  "popen_calls [] = []"
| "popen_calls (Popen_call c # es) = c # popen_calls es"
| "popen_calls (e # es) = popen_calls es"

text \<open>The records of the logger in a trace.\<close>

fun log_records :: "event list \<Rightarrow> (level \<times> string) list" where
  "log_records [] = []"
| "log_records (Log l m # es) = (l, m) # log_records es"
| "log_records (e # es) = log_records es"

text \<open>A world in which every spawn succeeds, every waiter has ended when it is first
  observed, every child exits with code 0 and prints nothing, and every write, signal and
  sleep goes through.\<close>

definition calm_world :: world where
  "calm_world =
     \<lparr>now = 0, popen_res = (\<lambda>k. Inr (100 + k)), finished = (\<lambda>k. True),
      exit_res = (\<lambda>k. (0, [], [])), write_res = (\<lambda>k. None), killpg_res = (\<lambda>k. None),
      sleep_res = (\<lambda>k. None), trace = []\<rparr>"

text \<open>A world in which the child has exited with code 1 when its waiter is first
  observed (the exit code is collected at instant 2), and the \<^verbatim>\<open>ps\<close> helper prints a
  table without the group of the child.\<close>

definition failing_child_world :: world where
  "failing_child_world =
     calm_world\<lparr>exit_res := (\<lambda>k. if k = 2 then (1, [], [])
                                else (0, ''PGID\<newline>    1\<newline>'', []))\<rparr>"

text \<open>A world in which the operating system refuses every spawn.\<close>

definition refusing_world :: world where
  "refusing_world = calm_world\<lparr>popen_res := (\<lambda>k. Inl OSError)\<rparr>"

text \<open>A world for \<^verbatim>\<open>sleep 5\<close> under a timeout of a fifth of a second, with the
  probe of the process group enabled. The child is process 7. Its waiter is running at
  the looks of lines 135 and 137 (instants 1 and 2) and has ended when the grace period
  of line 142 is over (instant 7), with the exit code of a process killed by
  \<^verbatim>\<open>SIGTERM\<close>. The first \<^verbatim>\<open>ps\<close> helper (spawned at instant 3, observed ended at
  instant 4, its output read at instant 5) lists the group 7; every later one does not.\<close>

definition sigterm_world :: world where
  "sigterm_world =
     calm_world\<lparr>popen_res := (\<lambda>k. if k = 0 then Inr 7 else Inr (100 + k)),
                finished := (\<lambda>k. k = 4 \<or> 7 \<le> k),
                exit_res := (\<lambda>k. if k = 5 then (0, ''PGID\<newline>    1\<newline>    7\<newline>'', [])
                                else if k = 8 then (- 15, [], [])
                                else (0, ''PGID\<newline>    1\<newline>'', []))\<rparr>"

text \<open>The same run with the probe disabled: the waiter is running at the three looks
  made before \<^verbatim>\<open>SIGTERM\<close> is sent and has ended when the grace period is over.\<close>

definition sigterm_direct_world :: world where
  "sigterm_direct_world =
     calm_world\<lparr>popen_res := (\<lambda>k. Inr 7), finished := (\<lambda>k. 5 \<le> k),
                exit_res := (\<lambda>k. (- 15, [], []))\<rparr>"

definition sleep_kwargs :: kwargs where
  "sleep_kwargs = no_kwargs\<lparr>kw_timeout := Some (1 / 5)\<rparr>"

definition sleep_direct_kwargs :: kwargs where
  "sleep_direct_kwargs = no_kwargs\<lparr>kw_timeout := Some (1 / 5), kw_check_pg_alive := Some False\<rparr>"

text \<open>A command that handles \<^verbatim>\<open>SIGTERM\<close> and goes on.\<close>

definition stubborn_cmd :: "string list" where
  "stubborn_cmd = [''sh'', ''-c'', ''trap : TERM; while :; do :; done'']"

text \<open>A world in which the child, process 7, exits at once with code 0, while every
  run of \<^verbatim>\<open>ps\<close> prints the group identifier 7: a descendant that ignores
  \<^verbatim>\<open>SIGTERM\<close> keeps the group alive.\<close>

definition orphan_world :: world where
  "orphan_world =
     calm_world\<lparr>popen_res := (\<lambda>k. if k = 0 then Inr 7 else Inr (100 + k)),
                exit_res := (\<lambda>k. (0, ''7'', []))\<rparr>"

definition true_kwargs :: kwargs where
  "true_kwargs = no_kwargs\<lparr>kw_timeout := Some 5\<rparr>"

text \<open>The world of \<open>orphan_world\<close> in which only the waiters of the two \<^verbatim>\<open>ps\<close>
  helpers of a \<^verbatim>\<open>join\<close> (observed at the instants 4 and 10) ever end: the waiter of
  the child is running at every look, also after \<^verbatim>\<open>SIGKILL\<close>.\<close>

definition unkillable_world :: world where
  "unkillable_world = orphan_world\<lparr>finished := (\<lambda>k. k = 4 \<or> k = 10)\<rparr>"

text \<open>A world in which the first spawn succeeds and every later one is refused, as when
  \<^verbatim>\<open>ps\<close> is not installed.\<close>

definition no_ps_world :: world where
  "no_ps_world = calm_world\<lparr>popen_res := (\<lambda>k. if k = 0 then Inr 7 else Inl OSError)\<rparr>"

text \<open>A write larger than the buffer of the pipe, which goes to the operating system
  at once.\<close>

definition big_payload :: string where
  "big_payload = replicate 100000 (CHR ''x'')"

text \<open>A world in which the write at instant 4 finds the pipe closed, the child having
  exited with code 1: for the staged input below that is the second write, the first one
  having been taken into the buffer. The exit code is collected at instant 5; the
  \<^verbatim>\<open>ps\<close> helper prints a table without the group of the child.\<close>

definition closed_pipe_world :: world where
  "closed_pipe_world =
     calm_world\<lparr>write_res := (\<lambda>k. if k = 4 then Some OSError else None),
                exit_res := (\<lambda>k. if k = 5 then (1, [], [])
                                else (0, ''PGID\<newline>    1\<newline>'', []))\<rparr>"

definition feed_kwargs :: kwargs where
  "feed_kwargs = no_kwargs\<lparr>kw_stdin := Some PIPE,
     kw_delayed_inputs :=
       Some [PyFloat (1 / 10), PyBytes ''a'', PyBytes big_payload, PyBytes ''c'']\<rparr>"

text \<open>The same world on a machine without \<^verbatim>\<open>ps\<close>: the first spawn succeeds, every
  later one is refused.\<close>

definition closed_pipe_no_ps_world :: world where
  "closed_pipe_no_ps_world =
     closed_pipe_world\<lparr>popen_res := (\<lambda>k. if k = 0 then Inr 7 else Inl OSError)\<rparr>"

lemmas world_defs =
  calm_world_def failing_child_world_def refusing_world_def sigterm_world_def sigterm_direct_world_def
  orphan_world_def unkillable_world_def no_ps_world_def closed_pipe_world_def
  closed_pipe_no_ps_world_def sleep_kwargs_def sleep_direct_kwargs_def stubborn_cmd_def
  true_kwargs_def feed_kwargs_def

section \<open>Reasoning about sequenced calls\<close>

lemma popen_calls_append: "popen_calls (es @ fs) = popen_calls es @ popen_calls fs"
  by (induction es rule: popen_calls.induct) simp_all

subsection \<open>Rules for \<open>then_do\<close>\<close>

text \<open>The continuation is looked at only once the first call has been evaluated; a
  property of the final state, or of the result, is proved call by call.\<close>

lemma then_do_Return [simp]: "then_do (Return x, st) f = f x st"
  and then_do_Raise [simp]: "then_do (Raise e, st) f = (Raise e, st)"
  and then_do_Hang [simp]: "then_do (Hang, st) f = (Hang, st)"
  by (simp_all add: then_do_def)

lemma then_do_weak_cong [cong]: "m = m' \<Longrightarrow> then_do m f = then_do m' f"
  by simp

lemma then_do_ReturnE:
  assumes "then_do m f = (Return y, st')"
  obtains x st where "m = (Return x, st)" and "f x st = (Return y, st')"
  using assms by (cases m; cases "fst m") (auto simp: then_do_def)

lemma then_do_state:
  assumes "Q (snd m)" and "\<And>x st. m = (Return x, st) \<Longrightarrow> Q st \<Longrightarrow> Q (snd (f x st))"
  shows "Q (snd (then_do m f))"
  using assms by (cases m; cases "fst m") (auto simp: then_do_def)

subsection \<open>The three stages of \<^verbatim>\<open>join\<close>\<close>

text \<open>Names for parts of the right-hand side of \<^verbatim>\<open>join\<close>: the liveness check chosen
  at line 136, lines 145 to 162 (\<^verbatim>\<open>SIGKILL\<close>) and lines 139 to 162 (\<^verbatim>\<open>SIGTERM\<close>).
  The lemma \<open>join_stages\<close> is the equation of \<^verbatim>\<open>join\<close> written with them.\<close>

definition alive :: "bool \<Rightarrow> pw \<times> world \<Rightarrow> bool res \<times> (pw \<times> world)" where
  "alive pg st = (if pg then is_alive st else thread_is_alive st)"

definition join_sigkill :: "pw \<times> world \<Rightarrow> outcome res \<times> (pw \<times> world)" where
  "join_sigkill st9 =
     then_do (process_pid (fst st9\<lparr>exit_force_pg := check_pg_alive (fst st9)\<rparr>, snd st9)) (\<lambda>p st10.
     then_do (lg WARNING
                ''{}: is still alive after SIGTERM. Pressing the big red button...''
                st10) (\<lambda>u st11.
     then_do (os_killpg p SIGKILL st11) (\<lambda>u st12.
     then_do (thread_is_alive st12) (\<lambda>a3 st13.
     if a3 then (Raise KeyError, st13)
     else join_result st13))))"

definition join_sigterm :: "bool \<Rightarrow> pw \<times> world \<Rightarrow> outcome res \<times> (pw \<times> world)" where
  "join_sigterm pg st3 =
     then_do (process_pid (fst st3\<lparr>exit_timeout_pg := check_pg_alive (fst st3)\<rparr>, snd st3)) (\<lambda>p st4.
     then_do (lg INFO ''{}: is still alive. Terminating now...'' st4) (\<lambda>u st5.
     then_do (os_killpg p SIGTERM st5) (\<lambda>u st6.
     then_do (thread_join (Some TIME_UNTIL_SIGKILL_SECS) st6) (\<lambda>u st7.
     then_do (thread_is_alive st7) (\<lambda>a2 st8.
     then_do (alive pg (fst st8\<lparr>exit_force := a2\<rparr>, snd st8)) (\<lambda>al2 st9.
     if al2 then join_sigkill st9 else join_result st9))))))"

lemma join_stages:
  "join st0 =
     then_do (thread_join (timeout (fst st0)) st0) (\<lambda>u st1.
     then_do (thread_is_alive st1) (\<lambda>a st2.
     then_do (alive (check_pg_alive (fst st1)) (fst st2\<lparr>exit_timeout := a\<rparr>, snd st2)) (\<lambda>al st3.
     if al then join_sigterm (check_pg_alive (fst st1)) st3 else join_result st3)))"
  unfolding join.simps [of st0] join_sigterm_def join_sigkill_def alive_def Let_def
  by (simp add: case_prod_unfold cong del: then_do_weak_cong if_weak_cong)


lemma then_do_post:
  assumes "\<And>x st. m = (Return x, st) \<Longrightarrow> R (f x st)"
    and "\<And>e st. R (Raise e, st)" and "\<And>st. R (Hang, st)"
  shows "R (then_do m f)"
  using assms by (cases m; cases "fst m") (auto simp: then_do_def)

subsection \<open>What the calls leave unchanged\<close>

text \<open>The waiter writes \<^verbatim>\<open>process\<close>, \<^verbatim>\<open>stdout_res\<close> and \<^verbatim>\<open>stderr_res\<close> only;
  signals, log records and the probe do not touch the object.\<close>

definition flags :: "pw \<Rightarrow> bool \<times> bool \<times> bool \<times> bool \<times> bool" where
  "flags s = (check_pg_alive s, exit_timeout s, exit_force s, exit_timeout_pg s, exit_force_pg s)"

lemma target_flags [simp]: "flags (fst (snd (target st))) = flags (fst st)"
  by (simp add: target_def flags_def split: prod.splits res.splits option.splits)

lemma thread_poll_flags [simp]: "flags (fst (thread_poll st)) = flags (fst st)"
proof (cases st)
  case (Pair s w)
  have "flags (fst (snd (target (s, tick w)))) = flags s"
    by simp
  then show ?thesis
    unfolding Pair thread_poll_def
    by (cases "target (s, tick w)"; cases "fst (target (s, tick w))") (auto simp: flags_def)
qed

lemma thread_join_flags [simp]: "flags (fst (snd (thread_join t st))) = flags (fst st)"
  by (simp add: thread_join_def case_prod_unfold split: option.splits)

lemma thread_is_alive_flags [simp]: "flags (fst (snd (thread_is_alive st))) = flags (fst st)"
  by (simp add: thread_is_alive_def case_prod_unfold split: option.splits)

lemma os_killpg_fst [simp]: "fst (snd (os_killpg p sig st)) = fst st"
  by (simp add: os_killpg_def case_prod_unfold split: option.splits)

lemma lg_fst [simp]: "fst (snd (lg l m st)) = fst st"
  by (simp add: lg_def)

lemma process_pid_snd [simp]: "snd (process_pid st) = st"
  by (simp add: process_pid_def split: option.splits)

lemma join_result_snd [simp]: "snd (join_result st) = st"
  by (simp add: join_result_def split: option.splits)

lemma is_alive_fst [simp]: "fst (snd (is_alive st)) = fst st"
proof -
  have "fst (snd (case execute ps_command ps_kwargs (snd st) of (r, w1) \<Rightarrow> (r, (fst st, w1)))) = fst st"
    by (simp add: case_prod_unfold)
  then show ?thesis
    unfolding is_alive.simps [of st]
    by (intro then_do_state [where Q = "\<lambda>x. fst x = fst st"])
       (auto simp: Let_def split: option.splits intro!: then_do_state [where Q = "\<lambda>x. fst x = fst st"])
qed

lemma alive_flags [simp]: "flags (fst (snd (alive pg st))) = flags (fst st)"
  by (simp add: alive_def)




lemma thread_join_fields [simp]:
  "check_pg_alive (fst (snd (thread_join t st))) = check_pg_alive (fst st)"
  "exit_timeout (fst (snd (thread_join t st))) = exit_timeout (fst st)"
  "exit_force (fst (snd (thread_join t st))) = exit_force (fst st)"
  "exit_timeout_pg (fst (snd (thread_join t st))) = exit_timeout_pg (fst st)"
  "exit_force_pg (fst (snd (thread_join t st))) = exit_force_pg (fst st)"
  using thread_join_flags [of t st] by (simp_all add: flags_def)

lemma thread_is_alive_fields [simp]:
  "check_pg_alive (fst (snd (thread_is_alive st))) = check_pg_alive (fst st)"
  "exit_timeout (fst (snd (thread_is_alive st))) = exit_timeout (fst st)"
  "exit_force (fst (snd (thread_is_alive st))) = exit_force (fst st)"
  "exit_timeout_pg (fst (snd (thread_is_alive st))) = exit_timeout_pg (fst st)"
  "exit_force_pg (fst (snd (thread_is_alive st))) = exit_force_pg (fst st)"
  using thread_is_alive_flags [of st] by (simp_all add: flags_def)

lemma alive_fields [simp]:
  "check_pg_alive (fst (snd (alive pg st))) = check_pg_alive (fst st)"
  "exit_timeout (fst (snd (alive pg st))) = exit_timeout (fst st)"
  "exit_force (fst (snd (alive pg st))) = exit_force (fst st)"
  "exit_timeout_pg (fst (snd (alive pg st))) = exit_timeout_pg (fst st)"
  "exit_force_pg (fst (snd (alive pg st))) = exit_force_pg (fst st)"
  using alive_flags [of pg st] by (simp_all add: flags_def)

subsection \<open>Properties of the state and of the result of \<^verbatim>\<open>join\<close>\<close>

text \<open>A group flag is set only if the option is: it is assigned the value of the option
  and nothing else.\<close>

definition pg_flags_ok :: "pw \<Rightarrow> bool" where
  "pg_flags_ok s = ((exit_timeout_pg s \<longrightarrow> check_pg_alive s)
                    \<and> (exit_force_pg s \<longrightarrow> check_pg_alive s))"

lemma join_sigkill_pg_flags_ok:
  assumes "pg_flags_ok (fst st)"
  shows "pg_flags_ok (fst (snd (join_sigkill st)))"
  unfolding join_sigkill_def
  apply (intro then_do_state [where Q = "\<lambda>x. pg_flags_ok (fst x)"])
  using assms
  apply (simp_all add: pg_flags_ok_def)
  done

lemma join_sigterm_pg_flags_ok:
  assumes "pg_flags_ok (fst st)"
  shows "pg_flags_ok (fst (snd (join_sigterm pg st)))"
  unfolding join_sigterm_def
  apply (intro then_do_state [where Q = "\<lambda>x. pg_flags_ok (fst x)"])
  using assms
        apply (simp_all add: join_sigkill_pg_flags_ok)
        apply (simp_all add: pg_flags_ok_def)
  done

lemma join_pg_flags_ok:
  assumes "pg_flags_ok (fst st)"
  shows "pg_flags_ok (fst (snd (join st)))"
  unfolding join_stages
  apply (intro then_do_state [where Q = "\<lambda>x. pg_flags_ok (fst x)"])
  using assms
        apply (simp_all add: join_sigterm_pg_flags_ok)
        apply (simp_all add: pg_flags_ok_def)
  done

text \<open>An Outcome that \<^verbatim>\<open>join\<close> returns is read off the final state.\<close>

lemma join_returns_result:
  assumes "join st = (Return out, st')"
  shows "join_result st' = (Return out, st')"
proof -
  let ?R = "\<lambda>m. \<forall>out st'. m = (Return out, st') \<longrightarrow> join_result st' = (Return out, st')"
  have r: "?R (join_result x)" for x
    using join_result_snd [of x] by (metis snd_conv)
  have k: "?R (join_sigkill x)" for x
    unfolding join_sigkill_def
    by (intro then_do_post [where R = ?R]) (simp_all add: r)
  have t: "?R (join_sigterm pg x)" for pg x
    unfolding join_sigterm_def
    by (intro then_do_post [where R = ?R]) (simp_all add: r k)
  have "?R (join st)"
    unfolding join_stages
    by (intro then_do_post [where R = ?R]) (simp_all add: r t)
  with assms show ?thesis by blast
qed

text \<open>Only \<^verbatim>\<open>Popen\<close> adds a spawn to the trace; with the probe disabled \<^verbatim>\<open>join\<close>
  adds none.\<close>

lemma popen_calls_snoc [simp]:
  "popen_calls (es @ [Sleep d]) = popen_calls es"
  "popen_calls (es @ [Stdin_write b]) = popen_calls es"
  "popen_calls (es @ [Killpg p sig]) = popen_calls es"
  "popen_calls (es @ [Send_signal p sig]) = popen_calls es"
  "popen_calls (es @ [Log l m]) = popen_calls es"
  "popen_calls (es @ [Thread_exception e]) = popen_calls es"
  "popen_calls (es @ [Popen_call c]) = popen_calls es @ [c]"
  by (simp_all add: popen_calls_append)

lemma time_sleep_world [simp]:
  "popen_calls (trace (snd (time_sleep v w))) = popen_calls (trace w)"
  "write_res (snd (time_sleep v w)) = write_res w"
  by (auto simp: time_sleep_def emit_def tick_def split: sum.splits option.splits)

lemma stdin_write_world [simp]:
  "popen_calls (trace (snd (stdin_write s b w))) = popen_calls (trace w)"
  "write_res (snd (stdin_write s b w)) = write_res w"
  by (auto simp: stdin_write_def emit_def tick_def split: option.splits)

lemma target_loop_popen_calls [simp]:
  "popen_calls (trace (snd (target_loop xs s w))) = popen_calls (trace w)"
proof (induction xs arbitrary: w)
  case Nil
  show ?case by simp
next
  case (Cons i xs)
  show ?case
  proof (cases i)
    case (PyInt n)
    obtain r w1 where t: "time_sleep (PyInt n) w = (r, w1)"
      by (cases "time_sleep (PyInt n) w")
    with time_sleep_world(1) [of "PyInt n" w]
    have "popen_calls (trace w1) = popen_calls (trace w)" by simp
    with t PyInt Cons.IH [of w1] show ?thesis by (cases r) simp_all
  next
    case (PyFloat x)
    obtain r w1 where t: "time_sleep (PyFloat x) w = (r, w1)"
      by (cases "time_sleep (PyFloat x) w")
    with time_sleep_world(1) [of "PyFloat x" w]
    have "popen_calls (trace w1) = popen_calls (trace w)" by simp
    with t PyFloat Cons.IH [of w1] show ?thesis by (cases r) simp_all
  next
    case (PyBytes b)
    obtain r w1 where t: "stdin_write s b w = (r, w1)"
      by (cases "stdin_write s b w")
    with stdin_write_world(1) [of s b w]
    have "popen_calls (trace w1) = popen_calls (trace w)" by simp
    with t PyBytes Cons.IH [of w1] show ?thesis
      by (cases r) (auto simp: emit_def split: exn.splits)
  next
    case (PyStr x)
    with Cons.IH [of w] show ?thesis by simp
  next
    case (PyBool x)
    with Cons.IH [of w] show ?thesis by simp
  next
    case PyNone
    with Cons.IH [of w] show ?thesis by simp
  qed
qed

lemma communicate_input_world [simp]:
  "popen_calls (trace (snd (communicate_input s w))) = popen_calls (trace w)"
  "now (snd (communicate_input s w)) = now w"
  "exit_res (snd (communicate_input s w)) = exit_res w"
  by (auto simp: communicate_input_def emit_def split: option.splits pyval.splits)

lemma communicate_input_accepted:
  "input_error s = None \<Longrightarrow> fst (communicate_input s w) = Return ()"
  by (auto simp: communicate_input_def split: option.splits pyval.splits)

lemma target_popen_calls [simp]:
  "popen_calls (trace (snd (snd (target st)))) = popen_calls (trace (snd st))"
proof (cases st)
  case (Pair s w)
  obtain r w1 where l: "target_loop (delayed_inputs s) s w = (r, w1)"
    by (cases "target_loop (delayed_inputs s) s w")
  obtain r2 w2 where c: "communicate_input s w1 = (r2, w2)"
    by (cases "communicate_input s w1")
  from target_loop_popen_calls [of "delayed_inputs s" s w] l
  have t1: "popen_calls (trace w1) = popen_calls (trace w)" by simp
  from communicate_input_world(1) [of s w1] c t1
  have t2: "popen_calls (trace w2) = popen_calls (trace w)" by simp
  show ?thesis
    unfolding Pair target_def using l c t1 t2
    by (cases r; cases r2) (simp_all add: tick_def split: option.splits prod.splits)
qed

lemma thread_poll_popen_calls [simp]:
  "popen_calls (trace (snd (thread_poll st))) = popen_calls (trace (snd st))"
proof (cases st)
  case (Pair s w)
  have "popen_calls (trace (snd (snd (target (s, tick w))))) = popen_calls (trace w)"
    by (simp add: tick_def)
  then show ?thesis
    unfolding Pair thread_poll_def
    by (cases "target (s, tick w)"; cases "fst (target (s, tick w))")
       (auto simp: emit_def tick_def)
qed

lemma thread_join_popen_calls [simp]:
  "popen_calls (trace (snd (snd (thread_join t st)))) = popen_calls (trace (snd st))"
  by (simp add: thread_join_def case_prod_unfold split: option.splits)

lemma thread_is_alive_popen_calls [simp]:
  "popen_calls (trace (snd (snd (thread_is_alive st)))) = popen_calls (trace (snd st))"
  by (simp add: thread_is_alive_def case_prod_unfold split: option.splits)

lemma os_killpg_popen_calls [simp]:
  "popen_calls (trace (snd (snd (os_killpg p sig st)))) = popen_calls (trace (snd st))"
  by (simp add: os_killpg_def case_prod_unfold emit_def tick_def split: option.splits)

lemma lg_popen_calls [simp]:
  "popen_calls (trace (snd (snd (lg l m st)))) = popen_calls (trace (snd st))"
  by (simp add: lg_def emit_def)

lemma join_no_probe:
  assumes "\<not> check_pg_alive (fst st)"
  shows "popen_calls (trace (snd (snd (join st)))) = popen_calls (trace (snd st))"
proof -
  let ?Q = "\<lambda>x. \<not> check_pg_alive (fst x) \<and> popen_calls (trace (snd x)) = popen_calls (trace (snd st))"
  have k: "?Q x \<Longrightarrow> ?Q (snd (join_sigkill x))" for x
    unfolding join_sigkill_def
    by (intro then_do_state [where Q = ?Q]) simp_all
  have t: "?Q x \<Longrightarrow> ?Q (snd (join_sigterm False x))" for x
    unfolding join_sigterm_def
    by (intro then_do_state [where Q = ?Q]) (simp_all add: k alive_def)
  have "?Q (snd (join st))"
    unfolding join_stages using assms
    by (intro then_do_state [where Q = ?Q]) (simp_all add: t alive_def)
  then show ?thesis by simp
qed

lemma join_check_pg_alive [simp]:
  "check_pg_alive (fst (snd (join st))) = check_pg_alive (fst st)"
proof -
  let ?Q = "\<lambda>x. check_pg_alive (fst x) = check_pg_alive (fst st)"
  have k: "?Q x \<Longrightarrow> ?Q (snd (join_sigkill x))" for x
    unfolding join_sigkill_def
    by (intro then_do_state [where Q = ?Q]) simp_all
  have t: "?Q x \<Longrightarrow> ?Q (snd (join_sigterm pg x))" for x pg
    unfolding join_sigterm_def
    by (intro then_do_state [where Q = ?Q]) (simp_all add: k)
  show "?Q (snd (join st))"
    unfolding join_stages
    by (intro then_do_state [where Q = ?Q]) (simp_all add: t)
qed

lemma join_result_fields:
  assumes "join_result st = (Return out, st')"
  shows "out_timeout out = exit_timeout (fst st)" "out_killed out = exit_force (fst st)"
    "out_timeout_pg out = exit_timeout_pg (fst st)" "out_killed_pg out = exit_force_pg (fst st)"
    "out_stdout out = stdout_res (fst st)" "out_stderr out = stderr_res (fst st)"
    "map_option returncode (process (fst st)) = Some (out_returncode out)"
  using assms by (auto simp: join_result_def split: option.splits)

text \<open>After a successful \<^verbatim>\<open>run\<close> the object is the fresh one with a process and a
  running thread.\<close>

lemma run_started:
  assumes "run (ProcessWrapper cmd kw, w) = (Return (), st1)"
  shows "\<exists>p. fst st1 = (ProcessWrapper cmd kw)
           \<lparr>process := Some \<lparr>pid = p, returncode = None\<rparr>, thread := Some (Thread True)\<rparr>"
  using assms
  by (auto simp: run_def Popen_def Let_def
      split: prod.splits res.splits exn.splits if_splits sum.splits)

text \<open>The equations that evaluate the model on a concrete input.\<close>

lemmas model_defs =
  execute.simps join.simps is_alive.simps send_signal_def run_def Popen_def thread_join_def
  thread_is_alive_def thread_poll_def target_def communicate_input_def input_error_def py_bool_def
  is_bytes_def
  stdin_write_def time_sleep_def sleep_length_def os_killpg_def
  lg_def process_pid_def join_result_def ProcessWrapper_def no_kwargs_def kwargs_get_def
  ps_kwargs_def ps_command_def tick_def emit_def py_split_def py_isspace_def utf8_cont_def
  TIME_UNTIL_SIGKILL_SECS_def Let_def

subsection \<open>The text functions on examples\<close>

text \<open>The euro sign, the first code point of four bytes and the last code point decode;
  an overlong form, a surrogate and a value above U+10FFFF do not. A header line and two
  group identifiers split into three words.\<close>

lemma decode_utf8_examples:
  "decode_utf8 [226, 130, 172] = Some [8364]"
  "decode_utf8 [240, 144, 128, 128] = Some [65536]"
  "decode_utf8 [244, 143, 191, 191] = Some [1114111]"
  "decode_utf8 [192, 128] = None"
  "decode_utf8 [224, 159, 128] = None"
  "decode_utf8 [237, 160, 128] = None"
  "decode_utf8 [244, 144, 128, 128] = None"
  "decode_utf8 [226, 130] = None"
  by (simp_all add: utf8_cont_def)

lemma py_split_example:
  "map_option py_split (decode_utf8 (map of_char '' PGID\<newline>    7\<newline>  120\<newline>''))
     = Some [map of_char ''PGID'', py_str 7, py_str 120]"
  by (simp add: py_split_def py_isspace_def)

subsection \<open>Threads and the probe\<close>

text \<open>A thread that has ended stays ended.\<close>

lemma thread_poll_dead [simp]:
  "thread (fst st) = Some (Thread False) \<Longrightarrow> thread_poll st = st"
  by (simp add: thread_poll_def case_prod_unfold)

lemma thread_join_dead [simp]:
  "thread (fst st) = Some (Thread False) \<Longrightarrow> thread_join t st = (Return (), st)"
  by (simp add: thread_join_def case_prod_unfold)

lemma thread_is_alive_dead [simp]:
  "thread (fst st) = Some (Thread False) \<Longrightarrow> thread_is_alive st = (Return False, st)"
  by (simp add: thread_is_alive_def case_prod_unfold)

text \<open>The answer of \<^verbatim>\<open>is_alive\<close> as a function of what the helper run returned and
  of \<^verbatim>\<open>self.process\<close>; the object itself is not changed by the probe.\<close>

definition probe_answer :: "outcome res \<Rightarrow> popen option \<Rightarrow> bool res" where
  "probe_answer r po =
     (case r of
        Return result \<Rightarrow>
          (case out_stdout result of
             None \<Rightarrow> Raise AttributeError
           | Some b \<Rightarrow>
               (case decode_utf8 (map of_char b) of
                  None \<Rightarrow> Raise UnicodeDecodeError
                | Some txt \<Rightarrow>
                    (case po of
                       None \<Rightarrow> Raise AttributeError
                     | Some p \<Rightarrow> Return (py_str (pid p) \<in> set (py_split txt)))))
      | Raise e \<Rightarrow> Raise e
      | Hang \<Rightarrow> Hang)"

lemma is_alive_eq:
  "is_alive st =
     (probe_answer (fst (execute ps_command ps_kwargs (snd st))) (process (fst st)),
      (fst st, snd (execute ps_command ps_kwargs (snd st))))"
  unfolding is_alive.simps [of st] probe_answer_def
  by (cases "execute ps_command ps_kwargs (snd st)"; cases "fst (execute ps_command ps_kwargs (snd st))")
     (auto simp: process_pid_def Let_def split: option.splits)

lemma is_alive_update [simp]:
  "fst (is_alive (s\<lparr>exit_timeout := a\<rparr>, w)) = fst (is_alive (s, w))"
  "fst (is_alive (s\<lparr>exit_force := a\<rparr>, w)) = fst (is_alive (s, w))"
  "snd (snd (is_alive (s\<lparr>exit_timeout := a\<rparr>, w))) = snd (snd (is_alive (s, w)))"
  "snd (snd (is_alive (s\<lparr>exit_force := a\<rparr>, w))) = snd (snd (is_alive (s, w)))"
  by (simp_all add: is_alive_eq)

text \<open>From line 139 on, \<^verbatim>\<open>exit_timeout\<close> is not assigned again and
  \<^verbatim>\<open>exit_timeout_pg\<close> has the value of the option.\<close>

lemma join_sigkill_timeout_flags:
  "exit_timeout (fst (snd (join_sigkill st))) = exit_timeout (fst st)
   \<and> exit_timeout_pg (fst (snd (join_sigkill st))) = exit_timeout_pg (fst st)"
proof -
  let ?Q = "\<lambda>x. exit_timeout (fst x) = exit_timeout (fst st)
                \<and> exit_timeout_pg (fst x) = exit_timeout_pg (fst st)"
  show ?thesis
    unfolding join_sigkill_def
    by (intro then_do_state [where Q = ?Q]) simp_all
qed

lemma join_sigterm_timeout_flags:
  "exit_timeout (fst (snd (join_sigterm pg st))) = exit_timeout (fst st)
   \<and> exit_timeout_pg (fst (snd (join_sigterm pg st))) = check_pg_alive (fst st)"
proof -
  let ?Q = "\<lambda>x. exit_timeout (fst x) = exit_timeout (fst st)
                \<and> exit_timeout_pg (fst x) = check_pg_alive (fst st)"
  show ?thesis
    unfolding join_sigterm_def
    by (intro then_do_state [where Q = ?Q]) (simp_all add: join_sigkill_timeout_flags)
qed

text \<open>When the waiter has ended at the first wait and the liveness check finds nothing,
  \<^verbatim>\<open>join\<close> goes straight to line 154.\<close>

lemma join_after_exit:
  assumes wait: "thread_join (timeout (fst st1)) st1 = (Return (), st2)"
    and ended: "thread (fst st2) = Some (Thread False)"
    and quiet: "check_pg_alive (fst st2) \<Longrightarrow> fst (is_alive st2) = Return False"
  shows "\<exists>w3. join st1 = join_result (fst st2\<lparr>exit_timeout := False\<rparr>, w3)"
proof -
  obtain s2 w2 where st2: "st2 = (s2, w2)" by (cases st2)
  let ?s = "s2\<lparr>exit_timeout := False\<rparr>"
  have "\<exists>w3. alive (check_pg_alive s2) (?s, w2) = (Return False, (?s, w3))"
  proof (cases "check_pg_alive s2")
    case True
    with quiet st2 have "fst (is_alive (s2, w2)) = Return False" by simp
    then have "fst (is_alive (?s, w2)) = Return False" by simp
    moreover have "fst (snd (is_alive (?s, w2))) = ?s" by simp
    ultimately have "is_alive (?s, w2) = (Return False, (?s, snd (snd (is_alive (?s, w2)))))"
      by (metis prod.collapse)
    with True show ?thesis by (auto simp: alive_def)
  next
    case False
    with ended st2 show ?thesis by (simp add: alive_def)
  qed
  then obtain w3 where "alive (check_pg_alive s2) (?s, w2) = (Return False, (?s, w3))"
    by blast
  with wait ended st2 have "join st1 = join_result (?s, w3)"
    by (simp add: join_stages)
  with st2 show ?thesis by auto
qed

text \<open>A waiter that ends during a wait, its loop having ended normally, has stored the
  exit code that the operating system delivered; the flags are untouched.\<close>

lemma waiter_collects_exit_code:
  assumes running: "thread s1 = Some (Thread True)"
    and proc: "process s1 = Some p"
    and wait: "thread_join t (s1, w1) = (Return (), st2)"
    and ended: "thread (fst st2) = Some (Thread False)"
    and feeder: "target_loop (delayed_inputs s1) s1 (tick w1) = (Return (), w2)"
    and accepted: "disable_communicate s1 \<or> input_error s1 = None"
    and code: "exit_res w2 (now w2) = (rc, out, err)"
  shows "process (fst st2) = Some (p\<lparr>returncode := Some rc\<rparr>)"
    and "exit_timeout (fst st2) = exit_timeout s1" and "exit_force (fst st2) = exit_force s1"
    and "exit_timeout_pg (fst st2) = exit_timeout_pg s1"
    and "exit_force_pg (fst st2) = exit_force_pg s1"
    and "check_pg_alive (fst st2) = check_pg_alive s1"
    and "fst (target (s1, tick w1)) = Return ()"
proof -
  obtain r3 w3 where c: "communicate_input s1 w2 = (r3, w3)"
    by (cases "communicate_input s1 w2")
  from communicate_input_world(2,3) [of s1 w2] c code
  have code3: "exit_res w3 (now w3) = (rc, out, err)" by simp
  have r3: "\<not> disable_communicate s1 \<Longrightarrow> r3 = Return ()"
    using accepted communicate_input_accepted [of s1 w2] c by auto
  have t: "fst (target (s1, tick w1)) = Return ()
      \<and> process (fst (snd (target (s1, tick w1)))) = Some (p\<lparr>returncode := Some rc\<rparr>)"
    using proc feeder code code3 c r3 by (simp add: target_def)
  have fin: "finished w1 (now w1)"
    using wait ended running
    by (auto simp: thread_join_def thread_poll_def split: if_splits)
  with running t have "thread_poll (s1, w1) =
    (fst (snd (target (s1, tick w1)))\<lparr>thread := Some (Thread False)\<rparr>,
     snd (snd (target (s1, tick w1))))"
    by (cases "target (s1, tick w1)") (simp add: thread_poll_def)
  with wait running
  have st2: "fst st2 = fst (snd (target (s1, tick w1)))\<lparr>thread := Some (Thread False)\<rparr>"
    by (auto simp: thread_join_def split: if_splits)
  from st2 t show "process (fst st2) = Some (p\<lparr>returncode := Some rc\<rparr>)"
    by simp
  from target_flags [of "(s1, tick w1)"] st2
  show "exit_timeout (fst st2) = exit_timeout s1" and "exit_force (fst st2) = exit_force s1"
    and "exit_timeout_pg (fst st2) = exit_timeout_pg s1"
    and "exit_force_pg (fst st2) = exit_force_pg s1"
    and "check_pg_alive (fst st2) = check_pg_alive s1"
    by (simp_all add: flags_def)
  from t show "fst (target (s1, tick w1)) = Return ()" by simp
qed

subsection \<open>The loop over the staged input, the log and repeated calls\<close>

lemma log_records_append: "log_records (es @ fs) = log_records es @ log_records fs"
  by (induction es rule: log_records.induct) simp_all

lemma time_sleep_log_records [simp]:
  "log_records (trace (snd (time_sleep v w))) = log_records (trace w)"
  by (auto simp: time_sleep_def emit_def tick_def log_records_append split: sum.splits option.splits)

lemma stdin_write_log_records [simp]:
  "log_records (trace (snd (stdin_write s b w))) = log_records (trace w)"
  by (auto simp: stdin_write_def emit_def tick_def log_records_append split: option.splits)

text \<open>A prefix of the staged input that is processed without a failed write (no record
  reaches the log) leaves the loop at the next entry.\<close>

lemma target_loop_append:
  assumes "target_loop pre s w = (Return (), w1)"
    and "log_records (trace w1) = log_records (trace w)"
  shows "target_loop (pre @ xs) s w = target_loop xs s w1"
  using assms
proof (induction pre arbitrary: w)
  case Nil
  then show ?case by simp
next
  case (Cons i pre)
  have step: "target_loop ((i # pre) @ xs) s w = target_loop xs s w1"
    if "target_loop pre s w' = (Return (), w1)"
      and "log_records (trace w') = log_records (trace w)"
      and "target_loop ((i # pre) @ xs) s w = target_loop (pre @ xs) s w'" for w'
  proof -
    from that(2) Cons.prems(2) have "log_records (trace w1) = log_records (trace w')" by simp
    from Cons.IH [OF that(1) this] that(3) show ?thesis by simp
  qed
  show ?case
  proof (cases i)
    case (PyInt n)
    obtain r w' where t: "time_sleep (PyInt n) w = (r, w')"
      by (cases "time_sleep (PyInt n) w")
    with Cons.prems(1) PyInt have r: "r = Return ()" and p: "target_loop pre s w' = (Return (), w1)"
      by (cases r; simp)+
    from time_sleep_log_records [of "PyInt n" w] t
    have "log_records (trace w') = log_records (trace w)" by simp
    from step [OF p this] t r PyInt show ?thesis by simp
  next
    case (PyFloat x)
    obtain r w' where t: "time_sleep (PyFloat x) w = (r, w')"
      by (cases "time_sleep (PyFloat x) w")
    with Cons.prems(1) PyFloat have r: "r = Return ()" and p: "target_loop pre s w' = (Return (), w1)"
      by (cases r; simp)+
    from time_sleep_log_records [of "PyFloat x" w] t
    have "log_records (trace w') = log_records (trace w)" by simp
    from step [OF p this] t r PyFloat show ?thesis by simp
  next
    case (PyBytes b)
    obtain r w' where t: "stdin_write s b w = (r, w')"
      by (cases "stdin_write s b w")
    from stdin_write_log_records [of s b w] t
    have l: "log_records (trace w') = log_records (trace w)" by simp
    show ?thesis
    proof (cases r)
      case (Return u)
      with Cons.prems(1) PyBytes t have p: "target_loop pre s w' = (Return (), w1)" by simp
      from step [OF p l] t Return PyBytes show ?thesis by simp
    next
      case (Raise e)
      with Cons.prems(1) PyBytes t have "e = OSError"
        and "w1 = emit (Log INFO ''Input: {} failed to write to stdin due to\<newline>{}'') w'"
        by (cases e; simp)+
      with l have "log_records (trace w1) = log_records (trace w)
          @ [(INFO, ''Input: {} failed to write to stdin due to\<newline>{}'')]"
        by (simp add: emit_def log_records_append)
      with Cons.prems(2) show ?thesis by simp
    next
      case Hang
      with Cons.prems(1) PyBytes t show ?thesis by simp
    qed
  next
    case (PyStr x)
    with Cons show ?thesis by simp
  next
    case (PyBool x)
    with Cons show ?thesis by simp
  next
    case PyNone
    with Cons show ?thesis by simp
  qed
qed

lemma execute_after_run:
  assumes "run (ProcessWrapper cmd kw, w) = (Return (), st1)"
  shows "execute cmd kw w = (fst (join st1), snd (snd (join st1)))"
  using assms by (simp add: execute.simps case_prod_unfold)

lemma join_when_waiter_ended:
  assumes run: "run (ProcessWrapper cmd kw, w) = (Return (), st1)"
    and wait: "thread_join (timeout (fst st1)) st1 = (Return (), st2)"
    and ended: "thread (fst st2) = Some (Thread False)"
    and feeder: "target_loop (delayed_inputs (fst st1)) (fst st1) (tick (snd st1)) = (Return (), w2)"
    and accepted: "disable_communicate (fst st1) \<or> input_error (fst st1) = None"
    and code: "exit_res w2 (now w2) = (rc, out, err)"
    and probe: "check_pg_alive (ProcessWrapper cmd kw) \<Longrightarrow> fst (is_alive st2) = Return False"
  shows "\<exists>res st3. join st1 = (Return res, st3)
           \<and> out_returncode res = Some rc
           \<and> \<not> out_timeout res \<and> \<not> out_killed res
           \<and> \<not> out_timeout_pg res \<and> \<not> out_killed_pg res"
proof -
  from run_started [OF run] obtain p where
    s1: "fst st1 = (ProcessWrapper cmd kw)
           \<lparr>process := Some \<lparr>pid = p, returncode = None\<rparr>, thread := Some (Thread True)\<rparr>"
    by blast
  have init: "thread (fst st1) = Some (Thread True)"
    "process (fst st1) = Some \<lparr>pid = p, returncode = None\<rparr>"
    "\<not> exit_timeout (fst st1)" "\<not> exit_force (fst st1)"
    "\<not> exit_timeout_pg (fst st1)" "\<not> exit_force_pg (fst st1)"
    "check_pg_alive (fst st1) = check_pg_alive (ProcessWrapper cmd kw)"
    by (simp_all add: s1 ProcessWrapper_def)
  have wait': "thread_join (timeout (fst st1)) (fst st1, snd st1) = (Return (), st2)"
    using wait by simp
  note c = waiter_collects_exit_code [OF init(1) init(2) wait' ended feeder accepted code]
  from c(6) init(7) probe have "check_pg_alive (fst st2) \<Longrightarrow> fst (is_alive st2) = Return False"
    by simp
  from join_after_exit [OF wait ended this] obtain w3 where
    j: "join st1 = join_result (fst st2\<lparr>exit_timeout := False\<rparr>, w3)"
    by blast
  let ?res = "\<lparr>out_returncode = Some rc,
               out_stdout = stdout_res (fst st2), out_stderr = stderr_res (fst st2),
               out_timeout = False, out_killed = False,
               out_timeout_pg = False, out_killed_pg = False\<rparr>"
  from j c init have "join st1 = (Return ?res, (fst st2\<lparr>exit_timeout := False\<rparr>, w3))"
    by (simp add: join_result_def)
  then show ?thesis
    by (intro exI [of _ ?res] exI [of _ "(fst st2\<lparr>exit_timeout := False\<rparr>, w3)"]) simp
qed

text \<open>No call of \<^verbatim>\<open>join\<close> clears a group flag: lines 139 and 145 are the only
  assignments, and both assign \<^verbatim>\<open>check_pg_alive\<close>.\<close>

lemma join_keeps_flag:
  assumes "check_pg_alive (fst st)"
  shows "exit_timeout_pg (fst st) \<Longrightarrow> exit_timeout_pg (fst (snd (join st)))"
    and "exit_force_pg (fst st) \<Longrightarrow> exit_force_pg (fst (snd (join st)))"
proof -
  let ?Q = "\<lambda>x. check_pg_alive (fst x) \<and> exit_timeout_pg (fst x)"
  let ?R = "\<lambda>x. check_pg_alive (fst x) \<and> exit_force_pg (fst x)"
  have k: "?Q x \<Longrightarrow> ?Q (snd (join_sigkill x))" for x
    unfolding join_sigkill_def
    by (intro then_do_state [where Q = ?Q]) simp_all
  have t: "?Q x \<Longrightarrow> ?Q (snd (join_sigterm pg x))" for x pg
    unfolding join_sigterm_def
    by (intro then_do_state [where Q = ?Q]) (simp_all add: k)
  have k': "?R x \<Longrightarrow> ?R (snd (join_sigkill x))" for x
    unfolding join_sigkill_def
    by (intro then_do_state [where Q = ?R]) simp_all
  have t': "?R x \<Longrightarrow> ?R (snd (join_sigterm pg x))" for x pg
    unfolding join_sigterm_def
    by (intro then_do_state [where Q = ?R]) (simp_all add: k')
  show "exit_timeout_pg (fst st) \<Longrightarrow> exit_timeout_pg (fst (snd (join st)))"
  proof -
    assume "exit_timeout_pg (fst st)"
    with assms have "?Q (snd (join st))"
      unfolding join_stages
      by (intro then_do_state [where Q = ?Q]) (simp_all add: t)
    then show ?thesis by simp
  qed
  show "exit_force_pg (fst st) \<Longrightarrow> exit_force_pg (fst (snd (join st)))"
  proof -
    assume "exit_force_pg (fst st)"
    with assms have "?R (snd (join st))"
      unfolding join_stages
      by (intro then_do_state [where Q = ?R]) (simp_all add: t')
    then show ?thesis by simp
  qed
qed

lemma later_keeps_flags:
  assumes "pg_flags_ok (fst st)"
  shows "pg_flags_ok (fst (later n st))
    \<and> (exit_timeout_pg (fst st) \<longrightarrow> exit_timeout_pg (fst (later n st)))
    \<and> (exit_force_pg (fst st) \<longrightarrow> exit_force_pg (fst (later n st)))"
  using assms
proof (induction n arbitrary: st)
  case 0
  then show ?case by simp
next
  case (Suc n)
  from Suc.IH [OF Suc.prems] have ih: "pg_flags_ok (fst (later n st))"
    "exit_timeout_pg (fst st) \<longrightarrow> exit_timeout_pg (fst (later n st))"
    "exit_force_pg (fst st) \<longrightarrow> exit_force_pg (fst (later n st))"
    by simp_all
  from ih(1) have ok: "pg_flags_ok (fst (snd (join (later n st))))"
    by (rule join_pg_flags_ok)
  from ih(1) have "exit_timeout_pg (fst (later n st))
      \<longrightarrow> exit_timeout_pg (fst (snd (join (later n st))))"
    and "exit_force_pg (fst (later n st))
      \<longrightarrow> exit_force_pg (fst (snd (join (later n st))))"
    using join_keeps_flag [of "later n st"] by (auto simp: pg_flags_ok_def)
  with ih ok show ?case by simp
qed

lemma join_on_waiter_eq:
  assumes "\<not> check_pg_alive (fst st)"
  shows "join st = join_on_waiter st"
proof -
  obtain r st1 where t: "thread_join (timeout (fst st)) st = (r, st1)"
    by (cases "thread_join (timeout (fst st)) st")
  show ?thesis
  proof (cases r)
    case (Return u)
    with t assms have "\<not> check_pg_alive (fst st1)"
      using thread_join_check_pg_alive [of "timeout (fst st)" st "Return u" st1] by simp
    with t Return show ?thesis
      unfolding join.simps [of st] join_on_waiter_def
      by (simp add: case_prod_unfold cong del: then_do_weak_cong if_weak_cong)
  next
    case (Raise e)
    with t show ?thesis
      unfolding join.simps [of st] join_on_waiter_def by simp
  next
    case Hang
    with t show ?thesis
      unfolding join.simps [of st] join_on_waiter_def by simp
  qed
qed

subsection \<open>A thread body that raises\<close>

text \<open>A staged sleep that \<^verbatim>\<open>time.sleep\<close> refuses, or an \<^verbatim>\<open>input\<close> that
  \<^verbatim>\<open>communicate\<close> refuses, ends the waiter before the child is waited for: the
  Outcome has no return code.\<close>

lemma thread_body_raises_examples:
  "execute [''true'']
      (no_kwargs\<lparr>kw_delayed_inputs := Some [PyInt 10000000000],
                 kw_check_pg_alive := Some False\<rparr>) calm_world
     = (Return \<lparr>out_returncode = None, out_stdout = None, out_stderr = None,
          out_timeout = False, out_killed = False, out_timeout_pg = False,
          out_killed_pg = False\<rparr>,
        calm_world\<lparr>now := 2,
          trace := [Popen_call [''true''], Thread_exception OverflowError]\<rparr>)"
  "execute [''true'']
      (no_kwargs\<lparr>kw_stdin := Some PIPE, kw_input := Some (PyStr ''abc''),
                 kw_check_pg_alive := Some False\<rparr>) calm_world
     = (Return \<lparr>out_returncode = None, out_stdout = None, out_stderr = None,
          out_timeout = False, out_killed = False, out_timeout_pg = False,
          out_killed_pg = False\<rparr>,
        calm_world\<lparr>now := 2,
          trace := [Popen_call [''true''], Thread_exception TypeError]\<rparr>)"
  by (simp_all add: model_defs world_defs)

section \<open>A child that exits before the timeout\<close>

text \<open>
  Claim C1, as the code has it. Take a run started from a fresh object in which the
  waiter has ended when the wait of line 135 returns, its loop over the staged input
  having ended without an exception, \<^verbatim>\<open>communicate\<close> (when it is used) having
  accepted the \<^verbatim>\<open>input\<close> argument, and \<^verbatim>\<open>wait\<close>/\<^verbatim>\<open>communicate\<close> having
  delivered the exit code \<open>rc\<close>. If \<^verbatim>\<open>check_pg_alive\<close> is disabled, or the probe of
  the process group made after the wait answers false, then \<^verbatim>\<open>join\<close> returns an
  Outcome with \<^verbatim>\<open>returncode\<close> \<open>rc\<close> and \<^verbatim>\<open>timeout\<close>, \<^verbatim>\<open>killed\<close>,
  \<^verbatim>\<open>timeout_pg\<close>, \<^verbatim>\<open>killed_pg\<close> all false. (A waiter whose body raised, on a
  sleep that \<^verbatim>\<open>time.sleep\<close> refuses or an \<^verbatim>\<open>input\<close> that \<^verbatim>\<open>communicate\<close>
  refuses, has collected no exit code: \<^verbatim>\<open>returncode\<close> is then \<^verbatim>\<open>None\<close>.)
\<close>

theorem exit_before_timeout:
  assumes run: "run (ProcessWrapper cmd kw, w) = (Return (), st1)"
    and wait: "thread_join (timeout (fst st1)) st1 = (Return (), st2)"
    and ended: "thread (fst st2) = Some (Thread False)"
    and feeder: "target_loop (delayed_inputs (fst st1)) (fst st1) (tick (snd st1)) = (Return (), w2)"
    and accepted: "disable_communicate (fst st1) \<or> input_error (fst st1) = None"
    and code: "exit_res w2 (now w2) = (rc, out, err)"
    and probe: "check_pg_alive (ProcessWrapper cmd kw) \<Longrightarrow> fst (is_alive st2) = Return False"
  shows "\<exists>res st3. join st1 = (Return res, st3)
           \<and> out_returncode res = Some rc
           \<and> \<not> out_timeout res \<and> \<not> out_killed res
           \<and> \<not> out_timeout_pg res \<and> \<not> out_killed_pg res"
  by (rule join_when_waiter_ended [OF run wait ended feeder accepted code probe])

theorem exit_before_timeout_witness:
  "run (ProcessWrapper [''false''] true_kwargs, failing_child_world)
     = (Return (), snd (run (ProcessWrapper [''false''] true_kwargs, failing_child_world)))
   \<and> thread (fst (snd (thread_join (Some 5)
         (snd (run (ProcessWrapper [''false''] true_kwargs, failing_child_world))))))
       = Some (Thread False)
   \<and> check_pg_alive (ProcessWrapper [''false''] true_kwargs)
   \<and> fst (is_alive (snd (thread_join (Some 5)
         (snd (run (ProcessWrapper [''false''] true_kwargs, failing_child_world))))))
       = Return False
   \<and> (\<exists>res st3. join (snd (run (ProcessWrapper [''false''] true_kwargs, failing_child_world)))
           = (Return res, st3)
         \<and> out_returncode res = Some 1
         \<and> \<not> out_timeout res \<and> \<not> out_killed res
         \<and> \<not> out_timeout_pg res \<and> \<not> out_killed_pg res)"
proof -
  let ?st1 = "snd (run (ProcessWrapper [''false''] true_kwargs, failing_child_world))"
  let ?st2 = "snd (thread_join (Some 5) ?st1)"
  have t: "timeout (fst ?st1) = Some 5"
    by (simp add: model_defs world_defs)
  have h1: "run (ProcessWrapper [''false''] true_kwargs, failing_child_world) = (Return (), ?st1)"
    by (simp add: model_defs world_defs)
  have h2: "thread_join (timeout (fst ?st1)) ?st1 = (Return (), ?st2)"
    unfolding t by (simp add: model_defs world_defs)
  have h3: "thread (fst ?st2) = Some (Thread False)"
    by (simp add: model_defs world_defs)
  have h4: "target_loop (delayed_inputs (fst ?st1)) (fst ?st1) (tick (snd ?st1))
      = (Return (), tick (snd ?st1))"
    by (simp add: model_defs world_defs)
  have h5: "exit_res (tick (snd ?st1)) (now (tick (snd ?st1))) = (1, [], [])"
    by (simp add: model_defs world_defs)
  have h6: "fst (is_alive ?st2) = Return False"
    by (simp add: model_defs world_defs)
  have h7: "disable_communicate (fst ?st1) \<or> input_error (fst ?st1) = None"
    by (simp add: model_defs world_defs)
  have c: "check_pg_alive (ProcessWrapper [''false''] true_kwargs)"
    by (simp add: model_defs world_defs)
  from exit_before_timeout [OF h1 h2 h3 h4 h7 h5 h6] h1 h3 h6 c show ?thesis
    by simp
qed

text \<open>
  The claim as stated fails when a descendant outlives the child. In \<open>orphan_world\<close>
  the command exits at once with code 0, well before its timeout of five seconds, and the
  waiter has ended when the first wait returns; the probe still finds the group, and the
  Outcome has \<^verbatim>\<open>timeout_pg\<close> and \<^verbatim>\<open>killed_pg\<close> true. The comment at lines 80 to 84
  describes this case (\<^emph>\<open>any of the processes in the process group timeouts while main
  process exited\<close>).
\<close>

theorem exit_before_timeout_counterexample:
  "fst (run (ProcessWrapper [''sh'', ''-c'', ''./daemon &''] true_kwargs, orphan_world)) = Return ()
   \<and> thread (fst (snd (thread_join (Some 5)
         (snd (run (ProcessWrapper [''sh'', ''-c'', ''./daemon &''] true_kwargs, orphan_world))))))
       = Some (Thread False)
   \<and> fst (join (snd (run (ProcessWrapper [''sh'', ''-c'', ''./daemon &''] true_kwargs, orphan_world))))
       = Return \<lparr>out_returncode = Some 0, out_stdout = None, out_stderr = None,
           out_timeout = False, out_killed = False, out_timeout_pg = True,
           out_killed_pg = True\<rparr>"
  by (simp add: model_defs world_defs)

section \<open>When \<^verbatim>\<open>timeout_pg\<close> is set\<close>

text \<open>
  Claim C2, as the code has it. For a run started from a fresh object whose \<^verbatim>\<open>join\<close>
  returns an Outcome: \<^verbatim>\<open>timeout\<close> is the answer of \<^verbatim>\<open>Thread.is_alive\<close> after the
  wait of line 135, and \<^verbatim>\<open>timeout_pg\<close> is true exactly when \<^verbatim>\<open>check_pg_alive\<close> is
  enabled and the probe of the process group made after that wait answers true. The
  probe is made whether or not the waiter is still running, so \<^verbatim>\<open>timeout_pg\<close> does
  not imply \<^verbatim>\<open>timeout\<close>: it implies that the option is enabled and that the group was
  found alive.
\<close>

theorem timeout_pg_follows_probe:
  assumes run: "run (ProcessWrapper cmd kw, w) = (Return (), st1)"
    and ret: "join st1 = (Return res, st4)"
  shows "\<exists>st2 a st3.
           thread_join (timeout (fst st1)) st1 = (Return (), st2)
         \<and> thread_is_alive st2 = (Return a, st3)
         \<and> out_timeout res = a
         \<and> out_timeout_pg res
             = (check_pg_alive (ProcessWrapper cmd kw) \<and> fst (is_alive st3) = Return True)"
proof -
  from run_started [OF run] obtain p where
    s1: "fst st1 = (ProcessWrapper cmd kw)
           \<lparr>process := Some \<lparr>pid = p, returncode = None\<rparr>, thread := Some (Thread True)\<rparr>"
    by blast
  have pg1: "check_pg_alive (fst st1) = check_pg_alive (ProcessWrapper cmd kw)"
    and f1: "\<not> exit_timeout_pg (fst st1)"
    by (simp_all add: s1 ProcessWrapper_def)
  let ?pg = "check_pg_alive (ProcessWrapper cmd kw)"
  from ret have jr: "join_result st4 = (Return res, st4)"
    by (rule join_returns_result)
  from ret [unfolded join_stages] obtain u st2 where
    j: "thread_join (timeout (fst st1)) st1 = (Return u, st2)"
    and r2: "then_do (thread_is_alive st2) (\<lambda>a st2'.
       then_do (alive (check_pg_alive (fst st2)) (fst st2'\<lparr>exit_timeout := a\<rparr>, snd st2')) (\<lambda>al st3.
       if al then join_sigterm (check_pg_alive (fst st2)) st3 else join_result st3))
       = (Return res, st4)"
    by (rule then_do_ReturnE)
  from r2 obtain a st3 where
    ia: "thread_is_alive st2 = (Return a, st3)"
    and r3: "then_do (alive (check_pg_alive (fst st2)) (fst st3\<lparr>exit_timeout := a\<rparr>, snd st3)) (\<lambda>al st3.
       if al then join_sigterm (check_pg_alive (fst st2)) st3 else join_result st3)
       = (Return res, st4)"
    by (rule then_do_ReturnE)
  from r3 obtain al st5 where
    al: "alive (check_pg_alive (fst st2)) (fst st3\<lparr>exit_timeout := a\<rparr>, snd st3) = (Return al, st5)"
    and r4: "(if al then join_sigterm (check_pg_alive (fst st2)) st5 else join_result st5)
       = (Return res, st4)"
    by (rule then_do_ReturnE)
  have pg2: "check_pg_alive (fst st2) = ?pg"
    using thread_join_fields(1) [of "timeout (fst st1)" st1] j pg1 by simp
  have f2: "\<not> exit_timeout_pg (fst st2)"
    using thread_join_fields(4) [of "timeout (fst st1)" st1] j f1 by simp
  have pg3: "check_pg_alive (fst st3) = ?pg" and f3: "\<not> exit_timeout_pg (fst st3)"
    using thread_is_alive_fields(1,4) [of st2] ia pg2 f2 by simp_all
  have fl5: "check_pg_alive (fst st5) = ?pg" "\<not> exit_timeout_pg (fst st5)"
    "exit_timeout (fst st5) = a"
    using alive_fields(1,2,4) [of "check_pg_alive (fst st2)" "(fst st3\<lparr>exit_timeout := a\<rparr>, snd st3)"]
      al pg3 f3 by simp_all
  have fin: "exit_timeout (fst st4) = a \<and> exit_timeout_pg (fst st4) = (?pg \<and> al)"
  proof (cases al)
    case True
    with r4 have "snd (join_sigterm (check_pg_alive (fst st2)) st5) = st4" by simp
    with join_sigterm_timeout_flags [of "check_pg_alive (fst st2)" st5] fl5 True
    show ?thesis by simp
  next
    case False
    with r4 have "st4 = st5" using join_result_snd [of st5] by simp
    with fl5 False show ?thesis by simp
  qed
  have "?pg \<Longrightarrow> fst (is_alive st3) = Return al"
  proof -
    assume "?pg"
    with al pg2 have "is_alive (fst st3\<lparr>exit_timeout := a\<rparr>, snd st3) = (Return al, st5)"
      by (simp add: alive_def)
    then have "fst (is_alive (fst st3\<lparr>exit_timeout := a\<rparr>, snd st3)) = Return al" by simp
    then show ?thesis by simp
  qed
  then have "(?pg \<and> al) = (?pg \<and> fst (is_alive st3) = Return True)"
    by auto
  with fin join_result_fields(1,3) [OF jr]
  have e: "out_timeout res = a"
    "out_timeout_pg res = (?pg \<and> fst (is_alive st3) = Return True)"
    by simp_all
  from j have "thread_join (timeout (fst st1)) st1 = (Return (), st2)"
    by simp
  with ia e show ?thesis
    by blast
qed

theorem timeout_pg_follows_probe_witness:
  "run (ProcessWrapper [''sh'', ''-c'', ''./daemon &''] true_kwargs, orphan_world)
     = (Return (), snd (run (ProcessWrapper [''sh'', ''-c'', ''./daemon &''] true_kwargs, orphan_world)))
   \<and> fst (join (snd (run (ProcessWrapper [''sh'', ''-c'', ''./daemon &''] true_kwargs, orphan_world))))
     = Return \<lparr>out_returncode = Some 0, out_stdout = None, out_stderr = None,
           out_timeout = False, out_killed = False, out_timeout_pg = True,
           out_killed_pg = True\<rparr>
   \<and> (\<exists>st2 a st3.
         thread_join (timeout (fst (snd (run (ProcessWrapper [''sh'', ''-c'', ''./daemon &''] true_kwargs, orphan_world)))))
           (snd (run (ProcessWrapper [''sh'', ''-c'', ''./daemon &''] true_kwargs, orphan_world))) = (Return (), st2)
       \<and> thread_is_alive st2 = (Return a, st3)
       \<and> a = False
       \<and> check_pg_alive (ProcessWrapper [''sh'', ''-c'', ''./daemon &''] true_kwargs)
       \<and> fst (is_alive st3) = Return True)"
proof -
  let ?st1 = "snd (run (ProcessWrapper [''sh'', ''-c'', ''./daemon &''] true_kwargs, orphan_world))"
  let ?res = "\<lparr>out_returncode = Some 0, out_stdout = None, out_stderr = None,
           out_timeout = False, out_killed = False, out_timeout_pg = True,
           out_killed_pg = True\<rparr>"
  have h1: "run (ProcessWrapper [''sh'', ''-c'', ''./daemon &''] true_kwargs, orphan_world) = (Return (), ?st1)"
    by (simp add: model_defs world_defs)
  have v: "fst (join ?st1) = Return ?res"
    by (simp add: model_defs world_defs)
  then have h2: "join ?st1 = (Return ?res, snd (join ?st1))"
    by (metis prod.collapse)
  from timeout_pg_follows_probe [OF h1 h2] h1 v show ?thesis
    by auto
qed

text \<open>
  The claim as stated fails for a command that leaves a background process behind and
  exits: \<^verbatim>\<open>timeout_pg\<close> is true in the Outcome and \<^verbatim>\<open>timeout\<close> is false.
\<close>

theorem timeout_pg_follows_probe_counterexample:
  "fst (execute [''sh'', ''-c'', ''./daemon &''] no_kwargs orphan_world)
     = Return \<lparr>out_returncode = Some 0, out_stdout = None, out_stderr = None,
         out_timeout = False, out_killed = False, out_timeout_pg = True,
         out_killed_pg = True\<rparr>"
  by (simp add: model_defs world_defs)

section \<open>Later calls of \<^verbatim>\<open>join\<close>\<close>

text \<open>
  Claim C3, as the code has it. \<^verbatim>\<open>join\<close> keeps no cached Outcome: every call
  assigns \<^verbatim>\<open>exit_timeout\<close> anew from \<^verbatim>\<open>Thread.is_alive\<close> (line 137). For a run
  started from a fresh object whose first \<^verbatim>\<open>join\<close> returned the Outcome \<open>res1\<close>:
  a group flag (\<^verbatim>\<open>timeout_pg\<close>, \<^verbatim>\<open>killed_pg\<close>) that is true in \<open>res1\<close> is true in
  the Outcome of every later call of \<^verbatim>\<open>join\<close>, however many calls came between and
  whatever they did; and a second call made when the waiter has ended, at which the
  liveness check (the probe of the process group when \<^verbatim>\<open>check_pg_alive\<close> is enabled)
  finds nothing alive, returns \<open>res1\<close> with \<^verbatim>\<open>timeout\<close> set to false: return code,
  captured streams, \<^verbatim>\<open>killed\<close>, \<^verbatim>\<open>timeout_pg\<close> and \<^verbatim>\<open>killed_pg\<close> are those of
  \<open>res1\<close>, and the two Outcomes are equal when \<open>res1\<close> had \<^verbatim>\<open>timeout\<close> false.
\<close>

theorem second_join:
  assumes run: "run (ProcessWrapper cmd kw, w) = (Return (), st1)"
    and first: "join st1 = (Return res1, st2)"
  shows "(\<forall>n res st3. join (later n st2) = (Return res, st3) \<longrightarrow>
            (out_timeout_pg res1 \<longrightarrow> out_timeout_pg res)
          \<and> (out_killed_pg res1 \<longrightarrow> out_killed_pg res))
       \<and> (thread (fst st2) = Some (Thread False)
          \<and> (check_pg_alive (fst st2) \<longrightarrow> fst (is_alive st2) = Return False)
          \<longrightarrow> (\<exists>st3. join st2 = (Return (res1\<lparr>out_timeout := False\<rparr>), st3)))"
proof -
  from first have jr: "join_result st2 = (Return res1, st2)"
    by (rule join_returns_result)
  from run_started [OF run] obtain p where
    s1: "fst st1 = (ProcessWrapper cmd kw)
           \<lparr>process := Some \<lparr>pid = p, returncode = None\<rparr>, thread := Some (Thread True)\<rparr>"
    by blast
  have "pg_flags_ok (fst st1)"
    by (simp add: s1 pg_flags_ok_def ProcessWrapper_def)
  then have ok: "pg_flags_ok (fst st2)"
    using join_pg_flags_ok [of st1] first by simp
  have a: "(out_timeout_pg res1 \<longrightarrow> out_timeout_pg res)
      \<and> (out_killed_pg res1 \<longrightarrow> out_killed_pg res)"
    if "join (later n st2) = (Return res, st3)" for n res st3
  proof -
    from that have "join_result st3 = (Return res, st3)"
      by (rule join_returns_result)
    from join_result_fields(3,4) [OF this] that
    have r: "out_timeout_pg res = exit_timeout_pg (fst (later (Suc n) st2))"
      "out_killed_pg res = exit_force_pg (fst (later (Suc n) st2))"
      by simp_all
    from later_keeps_flags [OF ok, of "Suc n"] join_result_fields(3,4) [OF jr] r
    show ?thesis by simp
  qed
  have b: "\<exists>st3. join st2 = (Return (res1\<lparr>out_timeout := False\<rparr>), st3)"
    if ended: "thread (fst st2) = Some (Thread False)"
      and quiet: "check_pg_alive (fst st2) \<longrightarrow> fst (is_alive st2) = Return False"
  proof -
    have "thread_join (timeout (fst st2)) st2 = (Return (), st2)"
      using ended by simp
    from join_after_exit [OF this ended] quiet obtain w3 where
      j: "join st2 = join_result (fst st2\<lparr>exit_timeout := False\<rparr>, w3)"
      by blast
    from jr have "join_result (fst st2\<lparr>exit_timeout := False\<rparr>, w3)
        = (Return (res1\<lparr>out_timeout := False\<rparr>), (fst st2\<lparr>exit_timeout := False\<rparr>, w3))"
      by (auto simp: join_result_def split: option.splits)
    with j show ?thesis by simp
  qed
  from a b show ?thesis by blast
qed

theorem second_join_witness:
  "run (ProcessWrapper [''sleep'', ''5''] sleep_kwargs, sigterm_world)
     = (Return (), snd (run (ProcessWrapper [''sleep'', ''5''] sleep_kwargs, sigterm_world)))
   \<and> fst (join (snd (run (ProcessWrapper [''sleep'', ''5''] sleep_kwargs, sigterm_world))))
     = Return \<lparr>out_returncode = Some (- 15), out_stdout = None, out_stderr = None,
          out_timeout = True, out_killed = False, out_timeout_pg = True,
          out_killed_pg = False\<rparr>
   \<and> thread (fst (snd (join (snd
        (run (ProcessWrapper [''sleep'', ''5''] sleep_kwargs, sigterm_world))))))
     = Some (Thread False)
   \<and> check_pg_alive (fst (snd (join (snd
        (run (ProcessWrapper [''sleep'', ''5''] sleep_kwargs, sigterm_world))))))
   \<and> fst (is_alive (snd (join (snd
        (run (ProcessWrapper [''sleep'', ''5''] sleep_kwargs, sigterm_world))))))
     = Return False
   \<and> fst (join (later 0 (snd (join (snd
        (run (ProcessWrapper [''sleep'', ''5''] sleep_kwargs, sigterm_world)))))))
     = Return \<lparr>out_returncode = Some (- 15), out_stdout = None, out_stderr = None,
          out_timeout = False, out_killed = False, out_timeout_pg = True,
          out_killed_pg = False\<rparr>
   \<and> (\<exists>res. fst (join (later 1 (snd (join (snd
        (run (ProcessWrapper [''sleep'', ''5''] sleep_kwargs, sigterm_world)))))))
         = Return res \<and> out_timeout_pg res)"
proof -
  let ?st1 = "snd (run (ProcessWrapper [''sleep'', ''5''] sleep_kwargs, sigterm_world))"
  let ?res = "\<lparr>out_returncode = Some (- 15), out_stdout = None, out_stderr = None,
          out_timeout = True, out_killed = False, out_timeout_pg = True,
          out_killed_pg = False\<rparr>"
  let ?st2 = "snd (join ?st1)"
  have h0: "run (ProcessWrapper [''sleep'', ''5''] sleep_kwargs, sigterm_world) = (Return (), ?st1)"
    by (simp add: model_defs world_defs)
  have f1: "fst (join ?st1) = Return ?res"
    by (simp add: model_defs world_defs)
  then have h1: "join ?st1 = (Return ?res, ?st2)"
    by (metis prod.collapse)
  have h2: "thread (fst ?st2) = Some (Thread False)"
    by (simp add: model_defs world_defs)
  have h3: "fst (is_alive ?st2) = Return False"
    by (simp add: model_defs world_defs)
  have c: "check_pg_alive (fst ?st2)"
    by (simp add: model_defs world_defs)
  have "\<exists>res. fst (join (later 1 ?st2)) = Return res"
    by (simp add: model_defs world_defs)
  then obtain res3 st4 where h4: "join (later 1 ?st2) = (Return res3, st4)"
    by (metis prod.collapse)
  note t = second_join [OF h0 h1]
  from t h2 h3 obtain st3 where
    j2: "join ?st2 = (Return (?res\<lparr>out_timeout := False\<rparr>), st3)"
    by blast
  from t h4 have "out_timeout_pg res3"
    by (metis outcome.select_convs(6))
  with h4 have j3: "\<exists>res. fst (join (later 1 ?st2)) = Return res \<and> out_timeout_pg res"
    by simp
  from j2 have f6: "fst (join (later 0 ?st2))
      = Return \<lparr>out_returncode = Some (- 15), out_stdout = None, out_stderr = None,
          out_timeout = False, out_killed = False, out_timeout_pg = True,
          out_killed_pg = False\<rparr>"
    by simp
  from h0 f1 h2 c h3 f6 j3 show ?thesis
    by blast
qed

text \<open>
  The claim as stated fails for a run that timed out. In \<open>sigterm_world\<close> the command
  \<^verbatim>\<open>sleep 5\<close> outlives its timeout and dies of \<^verbatim>\<open>SIGTERM\<close>: the first \<^verbatim>\<open>join\<close>
  returns \<^verbatim>\<open>timeout\<close> and \<^verbatim>\<open>timeout_pg\<close> true and leaves the waiter ended. The
  second \<^verbatim>\<open>join\<close> returns \<^verbatim>\<open>timeout\<close> false: the Outcomes differ and a flag
  set during the run has been cleared.
\<close>

theorem second_join_counterexample:
  "fst (join (snd (run (ProcessWrapper [''sleep'', ''5''] sleep_kwargs, sigterm_world))))
     = Return \<lparr>out_returncode = Some (- 15), out_stdout = None, out_stderr = None,
         out_timeout = True, out_killed = False, out_timeout_pg = True,
         out_killed_pg = False\<rparr>
   \<and> thread (fst (snd (join (snd
         (run (ProcessWrapper [''sleep'', ''5''] sleep_kwargs, sigterm_world))))))
       = Some (Thread False)
   \<and> fst (join (snd (join (snd
         (run (ProcessWrapper [''sleep'', ''5''] sleep_kwargs, sigterm_world))))))
     = Return \<lparr>out_returncode = Some (- 15), out_stdout = None, out_stderr = None,
         out_timeout = False, out_killed = False, out_timeout_pg = True,
         out_killed_pg = False\<rparr>"
  by (simp add: model_defs world_defs)

section \<open>A waiter that survives \<^verbatim>\<open>SIGKILL\<close>\<close>

lemma thread_is_alive_ReturnD:
  assumes "thread_is_alive st = (Return a, st')"
  shows "thread (fst st') = Some (Thread a)"
proof -
  obtain s1 w1 where p: "thread_poll st = (s1, w1)" by (cases "thread_poll st")
  from assms p have "st' = (s1, w1)" and a: "a = (thread s1 = Some (Thread True))"
    and "thread (fst st) \<noteq> None"
    by (auto simp: thread_is_alive_def split: option.splits)
  moreover have "thread s1 \<noteq> None"
    using p \<open>thread (fst st) \<noteq> None\<close>
    by (cases st) (auto simp: thread_poll_def split: if_splits prod.splits res.splits)
  ultimately show ?thesis
    by (cases "thread s1") (auto, metis thread.collapse thread.sel)
qed

text \<open>Once \<^verbatim>\<open>SIGKILL\<close> has been sent, \<^verbatim>\<open>join\<close> returns an Outcome only if the
  waiter has ended when line 150 looks at it.\<close>

lemma join_sigkill_returns_only_if_ended:
  assumes "join_sigkill st = (Return out, st')"
  shows "thread (fst st') = Some (Thread False)"
proof -
  from assms [unfolded join_sigkill_def] obtain p st10 where
    "then_do (lg WARNING ''{}: is still alive after SIGTERM. Pressing the big red button...''
        st10) (\<lambda>u st11.
     then_do (os_killpg p SIGKILL st11) (\<lambda>u st12.
     then_do (thread_is_alive st12) (\<lambda>a3 st13.
     if a3 then (Raise KeyError, st13) else join_result st13))) = (Return out, st')"
    by (rule then_do_ReturnE)
  then obtain u st11 where
    "then_do (os_killpg p SIGKILL st11) (\<lambda>u st12.
     then_do (thread_is_alive st12) (\<lambda>a3 st13.
     if a3 then (Raise KeyError, st13) else join_result st13)) = (Return out, st')"
    by (rule then_do_ReturnE)
  then obtain u2 st12 where
    "then_do (thread_is_alive st12) (\<lambda>a3 st13.
     if a3 then (Raise KeyError, st13) else join_result st13) = (Return out, st')"
    by (rule then_do_ReturnE)
  then obtain a3 st13 where a: "thread_is_alive st12 = (Return a3, st13)"
    and r: "(if a3 then (Raise KeyError, st13) else join_result st13) = (Return out, st')"
    by (rule then_do_ReturnE)
  from r have "\<not> a3" and "join_result st13 = (Return out, st')"
    by (auto split: if_splits)
  with join_result_snd [of st13] have "\<not> a3" and "st' = st13"
    by simp_all
  with thread_is_alive_ReturnD [OF a] show ?thesis by simp
qed

text \<open>
  Claim C4 does not hold of the code. In \<open>unkillable_world\<close> the command runs past its
  timeout, the waiter is still alive after \<^verbatim>\<open>SIGTERM\<close> and the grace period, and still
  alive when line 150 looks at it after \<^verbatim>\<open>SIGKILL\<close>. \<^verbatim>\<open>join\<close> then raises
  \<^verbatim>\<open>KeyError\<close> from the \<^verbatim>\<open>format\<close> call of line 152: no Outcome is returned, and
  the logger has received the information and the warning of the two signals and nothing
  else.
\<close>

theorem join_after_sigkill_raises:
  "fst (execute stubborn_cmd (no_kwargs\<lparr>kw_timeout := Some (1 / 5)\<rparr>) unkillable_world)
     = Raise KeyError
   \<and> log_records (trace (snd
        (execute stubborn_cmd (no_kwargs\<lparr>kw_timeout := Some (1 / 5)\<rparr>) unkillable_world)))
     = [(INFO, ''{}: is still alive. Terminating now...''),
        (WARNING, ''{}: is still alive after SIGTERM. Pressing the big red button...'')]"
  by (simp add: model_defs world_defs)

section \<open>\<^verbatim>\<open>send_signal\<close> after the child has exited\<close>

lemma send_signal_dead:
  assumes "thread (fst st) = Some (Thread False)" and "command (fst st) \<noteq> []"
  shows "send_signal sig st = (Raise AttributeError, st)"
  using assms by (cases "command (fst st)") (simp_all add: send_signal_def)

text \<open>
  Claim C5 does not hold of the code. After a run in \<open>calm_world\<close>, whose \<^verbatim>\<open>join\<close>
  has returned the Outcome of a child that exited, \<^verbatim>\<open>send_signal\<close> raises
  \<^verbatim>\<open>AttributeError\<close> (the attribute \<^verbatim>\<open>pd\<close> of line 173) and nothing is logged:
  by \<open>send_signal_dead\<close> it does so whenever the waiter has ended.
\<close>

theorem send_signal_after_exit_raises:
  "fst (join (snd (run (ProcessWrapper [''true''] true_kwargs, calm_world))))
     = Return \<lparr>out_returncode = Some 0, out_stdout = None, out_stderr = None,
         out_timeout = False, out_killed = False, out_timeout_pg = False,
         out_killed_pg = False\<rparr>
   \<and> fst (send_signal SIGTERM
        (snd (join (snd (run (ProcessWrapper [''true''] true_kwargs, calm_world))))))
     = Raise AttributeError
   \<and> log_records (trace (snd (snd (send_signal SIGTERM
        (snd (join (snd (run (ProcessWrapper [''true''] true_kwargs, calm_world)))))))))
     = []"
  by (simp add: model_defs world_defs)

section \<open>Group flags and the option \<^verbatim>\<open>check_pg_alive\<close>\<close>

text \<open>
  Claim C6. For a run started from a fresh object: if \<^verbatim>\<open>join\<close> returns an Outcome in
  which \<^verbatim>\<open>timeout_pg\<close> or \<^verbatim>\<open>killed_pg\<close> is true, then \<^verbatim>\<open>check_pg_alive\<close> is
  enabled. With the option disabled, \<^verbatim>\<open>join\<close> spawns no process, whatever its
  result (the \<^verbatim>\<open>ps\<close> helper of the process-group probe is never run), and \<^verbatim>\<open>join\<close>
  is \<open>join_on_waiter\<close>: result, object and world are those of lines 135 to 162 with
  each of the two liveness checks (lines 138 and 144, which decide whether \<^verbatim>\<open>SIGTERM\<close>
  and \<^verbatim>\<open>SIGKILL\<close> are sent) being \<^verbatim>\<open>Thread.is_alive\<close> of the waiter.
\<close>

theorem group_flags_need_check_pg_alive:
  assumes "run (ProcessWrapper cmd kw, w) = (Return (), st1)"
    and "join st1 = (r, st2)"
  shows "(\<forall>out. r = Return out \<longrightarrow>
            (out_timeout_pg out \<longrightarrow> check_pg_alive (ProcessWrapper cmd kw))
          \<and> (out_killed_pg out \<longrightarrow> check_pg_alive (ProcessWrapper cmd kw)))
       \<and> (\<not> check_pg_alive (ProcessWrapper cmd kw) \<longrightarrow>
            popen_calls (trace (snd st2)) = popen_calls (trace (snd st1)))
       \<and> (\<not> check_pg_alive (ProcessWrapper cmd kw) \<longrightarrow> join st1 = join_on_waiter st1)"
proof -
  from run_started [OF assms(1)] obtain p where
    s1: "fst st1 = (ProcessWrapper cmd kw)
           \<lparr>process := Some \<lparr>pid = p, returncode = None\<rparr>, thread := Some (Thread True)\<rparr>"
    by blast
  have pg: "check_pg_alive (fst st1) = check_pg_alive (ProcessWrapper cmd kw)"
    by (simp add: s1)
  have "pg_flags_ok (fst st1)"
    by (simp add: s1 pg_flags_ok_def ProcessWrapper_def)
  then have ok: "pg_flags_ok (fst st2)"
    using join_pg_flags_ok [of st1] assms(2) by simp
  have pg2: "check_pg_alive (fst st2) = check_pg_alive (ProcessWrapper cmd kw)"
    using join_check_pg_alive [of st1] assms(2) pg by simp
  have a: "(out_timeout_pg out \<longrightarrow> check_pg_alive (ProcessWrapper cmd kw))
      \<and> (out_killed_pg out \<longrightarrow> check_pg_alive (ProcessWrapper cmd kw))"
    if "r = Return out" for out
  proof -
    from that assms(2) have "join_result st2 = (Return out, st2)"
      by (simp add: join_returns_result)
    from join_result_fields(3,4) [OF this] ok pg2 show ?thesis
      by (simp add: pg_flags_ok_def)
  qed
  have b: "popen_calls (trace (snd st2)) = popen_calls (trace (snd st1))"
    if "\<not> check_pg_alive (ProcessWrapper cmd kw)"
    using join_no_probe [of st1] that pg assms(2) by simp
  have c: "join st1 = join_on_waiter st1"
    if "\<not> check_pg_alive (ProcessWrapper cmd kw)"
    using join_on_waiter_eq [of st1] that pg by simp
  from a b c show ?thesis by blast
qed

theorem group_flags_need_check_pg_alive_witness:
  "run (ProcessWrapper [''sleep'', ''5''] sleep_direct_kwargs, sigterm_direct_world)
     = (Return (),
        snd (run (ProcessWrapper [''sleep'', ''5''] sleep_direct_kwargs, sigterm_direct_world)))
   \<and> \<not> check_pg_alive (ProcessWrapper [''sleep'', ''5''] sleep_direct_kwargs)
   \<and> join_on_waiter
        (snd (run (ProcessWrapper [''sleep'', ''5''] sleep_direct_kwargs, sigterm_direct_world)))
     = join (snd (run (ProcessWrapper [''sleep'', ''5''] sleep_direct_kwargs, sigterm_direct_world)))
   \<and> fst (join_on_waiter
        (snd (run (ProcessWrapper [''sleep'', ''5''] sleep_direct_kwargs, sigterm_direct_world))))
     = Return \<lparr>out_returncode = Some (- 15), out_stdout = None, out_stderr = None,
          out_timeout = True, out_killed = False, out_timeout_pg = False,
          out_killed_pg = False\<rparr>
   \<and> trace (snd (snd (join_on_waiter
        (snd (run (ProcessWrapper [''sleep'', ''5''] sleep_direct_kwargs, sigterm_direct_world))))))
     = [Popen_call [''sleep'', ''5''], Log INFO ''{}: is still alive. Terminating now...'',
        Killpg 7 SIGTERM]
   \<and> run (ProcessWrapper [''true''] true_kwargs, orphan_world)
     = (Return (), snd (run (ProcessWrapper [''true''] true_kwargs, orphan_world)))
   \<and> check_pg_alive (ProcessWrapper [''true''] true_kwargs)
   \<and> fst (join (snd (run (ProcessWrapper [''true''] true_kwargs, orphan_world))))
     = Return \<lparr>out_returncode = Some 0, out_stdout = None, out_stderr = None,
          out_timeout = False, out_killed = False, out_timeout_pg = True,
          out_killed_pg = True\<rparr>"
proof -
  let ?X = "(ProcessWrapper [''sleep'', ''5''] sleep_direct_kwargs, sigterm_direct_world)"
  let ?Y = "(ProcessWrapper [''true''] true_kwargs, orphan_world)"
  have r: "run ?X = (Return (), snd (run ?X))"
    by (simp add: model_defs world_defs)
  have j: "join (snd (run ?X)) = (fst (join (snd (run ?X))), snd (join (snd (run ?X))))"
    by simp
  have c: "\<not> check_pg_alive (ProcessWrapper [''sleep'', ''5''] sleep_direct_kwargs)"
    by (simp add: model_defs world_defs)
  have v: "fst (join_on_waiter (snd (run ?X)))
      = Return \<lparr>out_returncode = Some (- 15), out_stdout = None, out_stderr = None,
          out_timeout = True, out_killed = False, out_timeout_pg = False,
          out_killed_pg = False\<rparr>"
    by (simp add: join_on_waiter_def model_defs world_defs)
  have t: "trace (snd (snd (join_on_waiter (snd (run ?X)))))
      = [Popen_call [''sleep'', ''5''], Log INFO ''{}: is still alive. Terminating now...'',
         Killpg 7 SIGTERM]"
    by (simp add: join_on_waiter_def model_defs world_defs)
  have r': "run ?Y = (Return (), snd (run ?Y))"
    by (simp add: model_defs world_defs)
  have j': "join (snd (run ?Y)) = (fst (join (snd (run ?Y))), snd (join (snd (run ?Y))))"
    by simp
  have c': "check_pg_alive (ProcessWrapper [''true''] true_kwargs)"
    by (simp add: model_defs world_defs)
  have v': "fst (join (snd (run ?Y)))
      = Return \<lparr>out_returncode = Some 0, out_stdout = None, out_stderr = None,
          out_timeout = False, out_killed = False, out_timeout_pg = True,
          out_killed_pg = True\<rparr>"
    by (simp add: model_defs world_defs)
  from group_flags_need_check_pg_alive [OF r j] c
  have e: "join (snd (run ?X)) = join_on_waiter (snd (run ?X))"
    by blast
  from group_flags_need_check_pg_alive [OF r' j'] v'
  have "check_pg_alive (ProcessWrapper [''true''] true_kwargs)"
    by simp
  with e r c v t r' v' show ?thesis
    by simp
qed

section \<open>Launch failure\<close>

lemma Popen_trace: "trace (snd (Popen cmd w)) = trace w @ [Popen_call cmd]"
  by (simp add: Popen_def Let_def emit_def tick_def split: sum.splits)

text \<open>
  Claim C7. When \<^verbatim>\<open>Popen\<close> raises (an empty argument vector, or a refusal of the
  operating system), \<^verbatim>\<open>run\<close> raises the same exception to its caller, the object is
  unchanged, so \<^verbatim>\<open>self.thread\<close> is still \<^verbatim>\<open>None\<close> and no waiter was started, and
  \<^verbatim>\<open>Popen\<close> was called exactly once: there is no retry.
\<close>

theorem run_launch_failure:
  assumes "fst (Popen cmd w) = Raise e"
  shows "fst (run (ProcessWrapper cmd kw, w)) = Raise e
    \<and> fst (snd (run (ProcessWrapper cmd kw, w))) = ProcessWrapper cmd kw
    \<and> thread (fst (snd (run (ProcessWrapper cmd kw, w)))) = None
    \<and> popen_calls (trace (snd (snd (run (ProcessWrapper cmd kw, w)))))
        = popen_calls (trace w) @ [cmd]"
proof -
  obtain w1 where p: "Popen cmd w = (Raise e, w1)"
    using assms by (cases "Popen cmd w") simp
  have c: "command (ProcessWrapper cmd kw) = cmd" and t: "thread (ProcessWrapper cmd kw) = None"
    by (simp_all add: ProcessWrapper_def)
  have tr: "trace w1 = trace w @ [Popen_call cmd]"
    using Popen_trace [of cmd w] p by simp
  show ?thesis
  proof (cases "e = OSError")
    case True
    with p c have "run (ProcessWrapper cmd kw, w)
        = (Raise OSError, (ProcessWrapper cmd kw, emit (Log ERROR ''Couldn't Popen command {}'') w1))"
      by (simp add: run_def)
    with True t tr show ?thesis
      by (simp add: emit_def popen_calls_append)
  next
    case False
    with p c have "run (ProcessWrapper cmd kw, w) = (Raise e, (ProcessWrapper cmd kw, w1))"
      by (cases e) (simp_all add: run_def)
    with t tr show ?thesis
      by (simp add: popen_calls_append)
  qed
qed

theorem run_launch_failure_witness:
  "fst (Popen [] calm_world) = Raise IndexError
   \<and> fst (run (ProcessWrapper [] no_kwargs, calm_world)) = Raise IndexError
   \<and> thread (fst (snd (run (ProcessWrapper [] no_kwargs, calm_world)))) = None
   \<and> popen_calls (trace (snd (snd (run (ProcessWrapper [] no_kwargs, calm_world))))) = [[]]
   \<and> fst (Popen [''no-such-program''] refusing_world) = Raise OSError
   \<and> fst (run (ProcessWrapper [''no-such-program''] no_kwargs, refusing_world)) = Raise OSError
   \<and> thread (fst (snd (run (ProcessWrapper [''no-such-program''] no_kwargs, refusing_world))))
       = None
   \<and> popen_calls (trace (snd (snd
        (run (ProcessWrapper [''no-such-program''] no_kwargs, refusing_world)))))
       = [[''no-such-program'']]"
proof -
  have a: "fst (Popen [] calm_world) = Raise IndexError"
    by (simp add: Popen_def Let_def)
  have b: "fst (Popen [''no-such-program''] refusing_world) = Raise OSError"
    by (simp add: Popen_def Let_def refusing_world_def calm_world_def)
  have c: "trace calm_world = []" "trace refusing_world = []"
    by (simp_all add: refusing_world_def calm_world_def)
  show ?thesis
    using a b c run_launch_failure [OF a, of no_kwargs] run_launch_failure [OF b, of no_kwargs]
    by (simp add: ProcessWrapper_def)
qed

section \<open>The liveness probe\<close>

lemma run_popen_calls:
  "popen_calls (trace (snd (snd (run (s, w))))) = popen_calls (trace w) @ [command s]"
proof -
  obtain r w1 where p: "Popen (command s) w = (r, w1)" by (cases "Popen (command s) w")
  with Popen_trace [of "command s" w] have t: "trace w1 = trace w @ [Popen_call (command s)]"
    by simp
  show ?thesis
  proof (cases r)
    case (Return x)
    with p t show ?thesis by (simp add: run_def popen_calls_append)
  next
    case (Raise e)
    with p t show ?thesis by (cases e) (simp_all add: run_def popen_calls_append emit_def)
  next
    case Hang
    with p t show ?thesis by (simp add: run_def popen_calls_append)
  qed
qed

lemma execute_no_probe:
  assumes "\<not> check_pg_alive (ProcessWrapper cmd kw)"
  shows "popen_calls (trace (snd (execute cmd kw w))) = popen_calls (trace w) @ [cmd]"
proof -
  obtain r st1 where r: "run (ProcessWrapper cmd kw, w) = (r, st1)"
    by (cases "run (ProcessWrapper cmd kw, w)")
  from run_popen_calls [of "ProcessWrapper cmd kw" w] r
  have t: "popen_calls (trace (snd st1)) = popen_calls (trace w) @ [cmd]"
    by (simp add: ProcessWrapper_def)
  from run_check_pg_alive [OF r] assms have np: "\<not> check_pg_alive (fst st1)"
    by simp
  show ?thesis
  proof (cases r)
    case (Return u)
    with r have "execute cmd kw w = (fst (join st1), snd (snd (join st1)))"
      by (simp add: execute.simps case_prod_unfold)
    with join_no_probe [OF np] t show ?thesis by simp
  next
    case (Raise e)
    with r t show ?thesis by (cases st1) (simp add: execute.simps)
  next
    case Hang
    with r t show ?thesis by (cases st1) (simp add: execute.simps)
  qed
qed

lemma is_alive_spawns_once:
  "popen_calls (trace (snd (snd (is_alive st)))) = popen_calls (trace (snd st)) @ [ps_command]"
proof -
  have "\<not> check_pg_alive (ProcessWrapper ps_command ps_kwargs)"
    by (simp add: ProcessWrapper_def ps_kwargs_def no_kwargs_def kwargs_get_def)
  from execute_no_probe [OF this, of "snd st"] show ?thesis
    by (simp add: is_alive_eq)
qed

lemma execute_ps:
  assumes spawn: "popen_res w (now w) = Inr q"
    and ended: "finished w (now w + 1)"
    and outp: "exit_res w (now w + 2) = (rc, b, err)"
  shows "fst (execute ps_command ps_kwargs w)
    = Return \<lparr>out_returncode = Some rc, out_stdout = Some b, out_stderr = None,
        out_timeout = False, out_killed = False, out_timeout_pg = False,
        out_killed_pg = False\<rparr>"
  using assms by (simp add: model_defs)

text \<open>
  Claim C8, as the code has it. Every call of \<^verbatim>\<open>is_alive\<close> calls \<^verbatim>\<open>Popen\<close> exactly
  once, for \<^verbatim>\<open>ps\<close>: the helper run, started with \<^verbatim>\<open>check_pg_alive=False\<close>, probes
  no group of its own. When the helper is spawned, its waiter ends and its output is
  well-formed UTF-8, \<^verbatim>\<open>is_alive\<close> returns whether \<^verbatim>\<open>str(pid)\<close> is one of the words of
  the output, without raising; it returns false when the output has no word at all,
  whatever the exit code of \<^verbatim>\<open>ps\<close>. \<^verbatim>\<open>is_alive\<close> has no exception handler: when the
  helper cannot be spawned, or its output is not UTF-8, the exception reaches the caller.
\<close>

theorem is_alive_probe:
  "popen_calls (trace (snd (snd (is_alive (s, w))))) = popen_calls (trace w) @ [ps_command]
   \<and> (popen_res w (now w) = Inr q \<and> finished w (now w + 1)
      \<and> exit_res w (now w + 2) = (rc, b, err)
      \<and> decode_utf8 (map of_char b) = Some txt \<and> process s = Some p
      \<longrightarrow> fst (is_alive (s, w)) = Return (py_str (pid p) \<in> set (py_split txt))
        \<and> (py_split txt = [] \<longrightarrow> fst (is_alive (s, w)) = Return False))"
proof -
  have a: "popen_calls (trace (snd (snd (is_alive (s, w))))) = popen_calls (trace w) @ [ps_command]"
    using is_alive_spawns_once [of "(s, w)"] by simp
  have b: "fst (is_alive (s, w)) = Return (py_str (pid p) \<in> set (py_split txt))"
    if "popen_res w (now w) = Inr q" "finished w (now w + 1)"
      "exit_res w (now w + 2) = (rc, b, err)"
      "decode_utf8 (map of_char b) = Some txt" "process s = Some p"
    using execute_ps [OF that(1,2,3)] that(4,5)
    by (simp add: is_alive_eq probe_answer_def)
  from a b show ?thesis by auto
qed

theorem is_alive_probe_witness:
  "popen_res calm_world (now calm_world) = Inr 100 \<and> finished calm_world (now calm_world + 1)
   \<and> exit_res calm_world (now calm_world + 2) = (0, [], [])
   \<and> decode_utf8 (map of_char []) = Some [] \<and> py_split [] = []
   \<and> process ((ProcessWrapper [''true''] true_kwargs)\<lparr>process := Some \<lparr>pid = 7, returncode = None\<rparr>\<rparr>)
       = Some \<lparr>pid = 7, returncode = None\<rparr>
   \<and> fst (is_alive ((ProcessWrapper [''true''] true_kwargs)
              \<lparr>process := Some \<lparr>pid = 7, returncode = None\<rparr>\<rparr>, calm_world)) = Return False
   \<and> popen_calls (trace (snd (snd (is_alive ((ProcessWrapper [''true''] true_kwargs)
              \<lparr>process := Some \<lparr>pid = 7, returncode = None\<rparr>\<rparr>, calm_world))))) = [ps_command]"
proof -
  have h: "popen_res calm_world (now calm_world) = Inr 100" "finished calm_world (now calm_world + 1)"
    "exit_res calm_world (now calm_world + 2) = (0, [], [])"
    "decode_utf8 (map of_char []) = Some []" "py_split [] = []"
    "process ((ProcessWrapper [''true''] true_kwargs)\<lparr>process := Some \<lparr>pid = 7, returncode = None\<rparr>\<rparr>)
       = Some \<lparr>pid = 7, returncode = None\<rparr>"
    "trace calm_world = []"
    by (simp_all add: calm_world_def py_split_def)
  from is_alive_probe [of "(ProcessWrapper [''true''] true_kwargs)\<lparr>process := Some \<lparr>pid = 7, returncode = None\<rparr>\<rparr>"
      calm_world 100 0 "[]" "[]" "[]" "\<lparr>pid = 7, returncode = None\<rparr>"] h
  show ?thesis by simp
qed

text \<open>
  The claim as stated fails when the query cannot be made: in \<open>no_ps_world\<close> the spawn
  of \<^verbatim>\<open>ps\<close> is refused and \<^verbatim>\<open>is_alive\<close> raises \<^verbatim>\<open>OSError\<close> instead of returning
  false.
\<close>

theorem is_alive_probe_counterexample:
  "fst (run (ProcessWrapper [''true''] true_kwargs, no_ps_world)) = Return ()
   \<and> fst (is_alive (snd (run (ProcessWrapper [''true''] true_kwargs, no_ps_world))))
       = Raise OSError"
  by (simp add: model_defs world_defs)

section \<open>Staged input: a write that fails\<close>

text \<open>
  Claim C9, as the code has it. Take a run started from a fresh object with a pipe as
  \<^verbatim>\<open>stdin\<close>, whose staged input is \<open>pre\<close>, then the bytes \<open>b\<close>, then \<open>rest\<close>;
  the loop passes \<open>pre\<close> without an exception and without a failed write, and the write
  of \<open>b\<close> fails with an I/O error. Then the loop ends normally right there: it adds one
  record of level \<^verbatim>\<open>INFO\<close> to the log and nothing else, so that the write is not
  tried again and no entry of \<open>rest\<close> is processed. If moreover \<^verbatim>\<open>communicate\<close>
  (when it is used) accepts the \<^verbatim>\<open>input\<close> argument, the waiter has ended when the wait
  of line 135 returns, and \<^verbatim>\<open>check_pg_alive\<close> is disabled or the probe of the process
  group answers false, then the thread body ends without an exception and
  \<^verbatim>\<open>execute\<close> returns an Outcome: its \<^verbatim>\<open>returncode\<close> is the exit code collected
  after the failed write and \<^verbatim>\<open>timeout\<close>, \<^verbatim>\<open>killed\<close>, \<^verbatim>\<open>timeout_pg\<close>,
  \<^verbatim>\<open>killed_pg\<close> are false.
\<close>

theorem feeder_stops_at_failed_write:
  assumes run: "run (ProcessWrapper cmd kw, w) = (Return (), st1)"
    and pipe: "stdin (fst st1) = PIPE"
    and steps: "delayed_inputs (fst st1) = pre @ PyBytes b # rest"
    and before: "target_loop pre (fst st1) (tick (snd st1)) = (Return (), w1)"
    and nolog: "log_records (trace w1) = log_records (trace (snd st1))"
    and fail: "write_res w1 (now w1) = Some OSError"
    and accepted: "disable_communicate (fst st1) \<or> input_error (fst st1) = None"
    and wait: "thread_join (timeout (fst st1)) st1 = (Return (), st2)"
    and ended: "thread (fst st2) = Some (Thread False)"
    and probe: "check_pg_alive (ProcessWrapper cmd kw) \<Longrightarrow> fst (is_alive st2) = Return False"
  shows "target_loop (delayed_inputs (fst st1)) (fst st1) (tick (snd st1))
           = (Return (), emit (Log INFO ''Input: {} failed to write to stdin due to\<newline>{}'')
                           (tick w1))
       \<and> fst (target (fst st1, tick (snd st1))) = Return ()
       \<and> (\<exists>res. fst (execute cmd kw w) = Return res
              \<and> out_returncode res = Some (fst (exit_res w1 (now w1 + 1)))
              \<and> \<not> out_timeout res \<and> \<not> out_killed res
              \<and> \<not> out_timeout_pg res \<and> \<not> out_killed_pg res)"
proof -
  let ?w2 = "emit (Log INFO ''Input: {} failed to write to stdin due to\<newline>{}'') (tick w1)"
  from nolog have "log_records (trace w1) = log_records (trace (tick (snd st1)))"
    by (simp add: tick_def)
  from target_loop_append [OF before this, of "PyBytes b # rest"]
  have a: "target_loop (pre @ PyBytes b # rest) (fst st1) (tick (snd st1))
      = target_loop (PyBytes b # rest) (fst st1) w1" .
  from fail pipe have "target_loop (PyBytes b # rest) (fst st1) w1 = (Return (), ?w2)"
    by (simp add: stdin_write_def)
  with a steps have l: "target_loop (delayed_inputs (fst st1)) (fst st1) (tick (snd st1))
      = (Return (), ?w2)"
    by simp
  obtain rc out err where code: "exit_res ?w2 (now ?w2) = (rc, out, err)"
    by (cases "exit_res ?w2 (now ?w2)")
  then have rc: "rc = fst (exit_res w1 (now w1 + 1))"
    by (simp add: emit_def tick_def)
  from join_when_waiter_ended [OF run wait ended l accepted code probe] obtain res st3 where
    "join st1 = (Return res, st3)" "out_returncode res = Some rc"
    "\<not> out_timeout res" "\<not> out_killed res" "\<not> out_timeout_pg res" "\<not> out_killed_pg res"
    by blast
  with execute_after_run [OF run] rc have "fst (execute cmd kw w) = Return res
      \<and> out_returncode res = Some (fst (exit_res w1 (now w1 + 1)))
      \<and> \<not> out_timeout res \<and> \<not> out_killed res
      \<and> \<not> out_timeout_pg res \<and> \<not> out_killed_pg res"
    by simp
  moreover have "fst (target (fst st1, tick (snd st1))) = Return ()"
  proof -
    from run_started [OF run] obtain p where
      s1: "fst st1 = (ProcessWrapper cmd kw)
             \<lparr>process := Some \<lparr>pid = p, returncode = None\<rparr>, thread := Some (Thread True)\<rparr>"
      by blast
    have init: "thread (fst st1) = Some (Thread True)"
      "process (fst st1) = Some \<lparr>pid = p, returncode = None\<rparr>"
      by (simp_all add: s1)
    have wait': "thread_join (timeout (fst st1)) (fst st1, snd st1) = (Return (), st2)"
      using wait by simp
    from waiter_collects_exit_code(7) [OF init(1) init(2) wait' ended l accepted code]
    show ?thesis .
  qed
  ultimately show ?thesis using l by blast
qed

theorem feeder_stops_at_failed_write_witness:
  "run (ProcessWrapper [''false''] feed_kwargs, closed_pipe_world)
     = (Return (), snd (run (ProcessWrapper [''false''] feed_kwargs, closed_pipe_world)))
   \<and> delayed_inputs (fst (snd (run (ProcessWrapper [''false''] feed_kwargs, closed_pipe_world))))
     = [PyFloat (1 / 10), PyBytes ''a''] @ PyBytes big_payload # [PyBytes ''c'']
   \<and> target_loop [PyFloat (1 / 10), PyBytes ''a'']
        (fst (snd (run (ProcessWrapper [''false''] feed_kwargs, closed_pipe_world))))
        (tick (snd (snd (run (ProcessWrapper [''false''] feed_kwargs, closed_pipe_world)))))
      = (Return (),
         closed_pipe_world\<lparr>now := 4,
           trace := [Popen_call [''false''], Sleep (1 / 10), Stdin_write ''a'']\<rparr>)
   \<and> write_res closed_pipe_world 4 = Some OSError
   \<and> check_pg_alive (ProcessWrapper [''false''] feed_kwargs)
   \<and> target_loop [PyFloat (1 / 10), PyBytes ''a'', PyBytes big_payload, PyBytes ''c'']
        (fst (snd (run (ProcessWrapper [''false''] feed_kwargs, closed_pipe_world))))
        (tick (snd (snd (run (ProcessWrapper [''false''] feed_kwargs, closed_pipe_world)))))
      = (Return (),
         closed_pipe_world\<lparr>now := 5,
           trace := [Popen_call [''false''], Sleep (1 / 10), Stdin_write ''a'',
                     Log INFO ''Input: {} failed to write to stdin due to\<newline>{}'']\<rparr>)
   \<and> fst (execute [''false''] feed_kwargs closed_pipe_world)
      = Return \<lparr>out_returncode = Some 1, out_stdout = None, out_stderr = None,
          out_timeout = False, out_killed = False, out_timeout_pg = False,
          out_killed_pg = False\<rparr>"
proof -
  let ?st1 = "snd (run (ProcessWrapper [''false''] feed_kwargs, closed_pipe_world))"
  let ?st2 = "snd (thread_join None ?st1)"
  let ?w1 = "closed_pipe_world\<lparr>now := 4,
           trace := [Popen_call [''false''], Sleep (1 / 10), Stdin_write ''a'']\<rparr>"
  have t: "timeout (fst ?st1) = None"
    by (simp add: model_defs world_defs)
  have h1: "run (ProcessWrapper [''false''] feed_kwargs, closed_pipe_world) = (Return (), ?st1)"
    by (simp add: model_defs world_defs)
  have h2: "stdin (fst ?st1) = PIPE"
    and h3: "delayed_inputs (fst ?st1)
      = [PyFloat (1 / 10), PyBytes ''a''] @ PyBytes big_payload # [PyBytes ''c'']"
    and h7: "disable_communicate (fst ?st1) \<or> input_error (fst ?st1) = None"
    by (simp_all add: model_defs world_defs)
  have h4: "target_loop [PyFloat (1 / 10), PyBytes ''a''] (fst ?st1) (tick (snd ?st1))
      = (Return (), ?w1)"
    by (simp add: model_defs world_defs)
  have h5: "log_records (trace ?w1) = log_records (trace (snd ?st1))"
    by (simp add: model_defs world_defs)
  have h6: "write_res ?w1 (now ?w1) = Some OSError"
    by (simp add: model_defs world_defs)
  have h8: "thread_join (timeout (fst ?st1)) ?st1 = (Return (), ?st2)"
    unfolding t by (simp add: model_defs world_defs)
  have h9: "thread (fst ?st2) = Some (Thread False)"
    by (simp add: model_defs world_defs)
  have h10: "fst (is_alive ?st2) = Return False"
    by (simp add: model_defs world_defs)
  have c: "check_pg_alive (ProcessWrapper [''false''] feed_kwargs)"
    "write_res closed_pipe_world 4 = Some OSError"
    "exit_res ?w1 (now ?w1 + 1) = (1, [], [])"
    by (simp_all add: model_defs world_defs)
  have ev: "fst (execute [''false''] feed_kwargs closed_pipe_world)
      = Return \<lparr>out_returncode = Some 1, out_stdout = None, out_stderr = None,
          out_timeout = False, out_killed = False, out_timeout_pg = False,
          out_killed_pg = False\<rparr>"
    by (simp add: model_defs world_defs)
  from feeder_stops_at_failed_write [OF h1 h2 h3 h4 h5 h6 h7 h8 h9 h10]
  have l: "target_loop (delayed_inputs (fst ?st1)) (fst ?st1) (tick (snd ?st1))
      = (Return (), emit (Log INFO ''Input: {} failed to write to stdin due to\<newline>{}'')
                           (tick ?w1))"
    by blast
  with ev h1 h3 h4 c show ?thesis
    by (simp add: tick_def emit_def closed_pipe_world_def calm_world_def)
qed

text \<open>
  The claim as stated fails where the overall run cannot complete for another reason. In
  \<open>closed_pipe_no_ps_world\<close> the second write of the staged input fails and is logged,
  the waiter collects the exit code, and \<^verbatim>\<open>join\<close> then probes the process group
  (\<^verbatim>\<open>check_pg_alive\<close> is enabled by default): \<^verbatim>\<open>ps\<close> cannot be spawned,
  \<^verbatim>\<open>is_alive\<close> has no handler, and \<^verbatim>\<open>execute\<close> raises \<^verbatim>\<open>OSError\<close> instead of
  returning an Outcome.
\<close>

theorem feeder_stops_at_failed_write_counterexample:
  "log_records (trace (snd (execute [''false''] feed_kwargs closed_pipe_no_ps_world)))
     = [(INFO, ''Input: {} failed to write to stdin due to\<newline>{}''),
        (ERROR, ''Couldn't Popen command {}'')]
   \<and> fst (execute [''false''] feed_kwargs closed_pipe_no_ps_world) = Raise OSError"
  by (simp add: model_defs world_defs)

section \<open>Staged input: entries of other types\<close>

text \<open>
  Claim C10. An entry of \<^verbatim>\<open>delayed_inputs\<close> that is neither an \<^verbatim>\<open>int\<close>, nor a
  \<^verbatim>\<open>float\<close>, nor a \<^verbatim>\<open>bytes\<close> object (a \<^verbatim>\<open>str\<close> in particular) is skipped:
  the loop goes on with the next entry from the same world, so nothing was written to
  stdin, nothing was logged and no sleep took place for it.
\<close>

theorem target_loop_skips_other_types:
  assumes "\<forall>n. i \<noteq> PyInt n" and "\<forall>x. i \<noteq> PyFloat x" and "\<forall>b. i \<noteq> PyBytes b"
  shows "target_loop (i # rest) s w = target_loop rest s w"
  using assms by (cases i) simp_all

theorem target_loop_skips_other_types_witness:
  "(\<forall>n. PyStr ''ls'' \<noteq> PyInt n) \<and> (\<forall>x. PyStr ''ls'' \<noteq> PyFloat x)
   \<and> (\<forall>b. PyStr ''ls'' \<noteq> PyBytes b)
   \<and> target_loop [PyStr ''ls'', PyBytes ''x'']
        (ProcessWrapper [''cat''] (no_kwargs\<lparr>kw_stdin := Some PIPE\<rparr>)) calm_world
      = (Return (), emit (Stdin_write ''x'') (tick calm_world))"
  using target_loop_skips_other_types [of "PyStr ''ls''" "[PyBytes ''x'']"
      "ProcessWrapper [''cat''] (no_kwargs\<lparr>kw_stdin := Some PIPE\<rparr>)" calm_world]
  by (simp add: stdin_write_def ProcessWrapper_def no_kwargs_def kwargs_get_def calm_world_def)

end
